theory Spec2Isabelle
  imports Main
begin

section \<open>Python values, exceptions and the shared process state\<close>

text \<open>
  The service is two Python modules: \<^verbatim>\<open>app/telemetry.py\<close> (the MongoDB log handler, span
  exporter, metric exporter and their bootstrap) and \<^verbatim>\<open>app/main.py\<close> (the \<^verbatim>\<open>/news\<close>
  endpoint). Documents, attribute values and decoded JSON are all plain Python objects, so
  one datatype of Python values serves the three of them. A \<^verbatim>\<open>dict\<close> with string keys is an
  association list in insertion order. A float is only ever copied, never computed with,
  so it is carried as mantissa and binary exponent.
\<close>

datatype pyfloat = PyFloat int int | PyInf bool | PyNaN

datatype py =
    PNone
  | PBool bool
  | PInt int
  | PFloat pyfloat
  | PStr string
  | PList "py list"
  | PTuple "py list"
  | PDict "(string \<times> py) list"
  | PDatetime pyfloat

type_synonym pydict = "(string \<times> py) list"

text \<open>
  The exceptions that the two modules raise, catch or let through. \<open>PyMongoError\<close> is the
  base class of every error of the database driver; \<open>HTTPStatusError\<close> carries the status
  code of the response it was raised for; \<open>HTTPException\<close> is the web framework's error
  response (status code and detail); \<open>RequestValidationError\<close> is the framework's
  rejection of a query parameter, answered with status 422.
\<close>

datatype exn =
    PyMongoError string
  | ValueError string
  | TypeError string
  | AttributeError string
  | HTTPStatusError int
  | RequestError string
  | HTTPException int string
  | RequestValidationError
  | OtherError string

fun str_exn :: "exn \<Rightarrow> string" where
  "str_exn (PyMongoError m) = m"
| "str_exn (ValueError m) = m"
| "str_exn (TypeError m) = m"
| "str_exn (AttributeError m) = m"
| "str_exn (HTTPStatusError s) = ''HTTP status error''"
| "str_exn (RequestError m) = m"
| "str_exn (HTTPException s d) = d"
| "str_exn RequestValidationError = ''validation error''"
| "str_exn (OtherError m) = m"

fun is_PyMongoError :: "exn \<Rightarrow> bool" where
  "is_PyMongoError (PyMongoError m) = True"
| "is_PyMongoError e = False"

text \<open>Sequencing of calls that may raise: the first exception ends the computation.\<close>

definition bind_exn :: "exn + 'a \<Rightarrow> ('a \<Rightarrow> exn + 'b) \<Rightarrow> exn + 'b" where
  "bind_exn r f = (case r of Inl e \<Rightarrow> Inl e | Inr x \<Rightarrow> f x)"

fun py_opt_int :: "int option \<Rightarrow> py" where
  "py_opt_int None = PNone"
| "py_opt_int (Some i) = PInt i"

fun py_opt_str :: "string option \<Rightarrow> py" where
  "py_opt_str None = PNone"
| "py_opt_str (Some s) = PStr s"

text \<open>\<open>d[k] = v\<close> on a dict: an existing key keeps its position, a new key goes last.\<close>

fun dict_set :: "pydict \<Rightarrow> string \<Rightarrow> py \<Rightarrow> pydict" where
  "dict_set [] k v = [(k, v)]"
| "dict_set ((k', v') # kvs) k v =
     (if k' = k then (k, v) # kvs else (k', v') # dict_set kvs k v)"

text \<open>\<open>d.get(k)\<close> read from a document; anything that is not a dict has no keys.\<close>

fun doc_get :: "py \<Rightarrow> string \<Rightarrow> py option" where
  "doc_get (PDict kvs) k = map_of kvs k"
| "doc_get v k = None"

fun doc_path :: "py \<Rightarrow> string list \<Rightarrow> py option" where
  "doc_path v [] = Some v"
| "doc_path v (k # ks) = (case doc_get v k of None \<Rightarrow> None | Some v' \<Rightarrow> doc_path v' ks)"

text \<open>\<open>list(value) if isinstance(value, (list, tuple)) else value\<close>\<close>

fun list_if_sequence :: "py \<Rightarrow> py" where
  "list_if_sequence (PList xs) = PList xs"
| "list_if_sequence (PTuple xs) = PList xs"
| "list_if_sequence v = v"

text \<open>\<open>_serialize_attributes\<close>: a fresh dict, filled key by key.\<close>

definition serialize_attributes :: "pydict \<Rightarrow> pydict" where
  "serialize_attributes attributes =
     foldl (\<lambda>serialized (key, val). dict_set serialized key (list_if_sequence val)) [] attributes"

subsection \<open>Calls on the logger and the database, and the state of the process\<close>

datatype log_call = LogException string | LogDebug string

text \<open>
  A collection handle. What the database does with a write is not the program's to decide:
  \<open>insert_many_raises\<close> and \<open>insert_one_raises\<close> give, for the documents of a call, the
  exception the driver raises (\<open>None\<close> when the write succeeds).
\<close>

record collection =
  collection_name :: string
  insert_many_raises :: "py list \<Rightarrow> exn option"
  insert_one_raises :: "py \<Rightarrow> exn option"

text \<open>The arguments \<open>MongoClient\<close> is constructed with.\<close>

record client_kwargs =
  kw_uri :: "string option"
  kw_host :: "string option"
  kw_port :: "int option"
  kw_tz_aware :: bool
  kw_username :: "string option"
  kw_password :: "string option"
  kw_authSource :: "string option"

text \<open>A client object: its identity (the \<open>n\<close>-th object constructed) and its arguments.\<close>

record mongo_client =
  client_ident :: nat
  client_args :: client_kwargs

text \<open>
  A log record as the handler reads it. \<open>rec_exc_info\<close> is \<open>None\<close> when \<open>record.exc_info\<close>
  is false and holds the exception otherwise, as it does for every record made by
  \<open>logger.exception\<close>.
\<close>

record log_record =
  rec_name :: string
  rec_levelname :: string
  rec_message :: string
  rec_created :: pyfloat
  rec_pathname :: string
  rec_lineno :: int
  rec_funcName :: string
  rec_process :: "int option"
  rec_thread :: "int option"
  rec_module :: string
  rec_processName :: "string option"
  rec_args :: py
  rec_exc_info :: "string option"

text \<open>
  What the bootstrap installs: a span processor or metric reader wraps the exporter of one
  collection; the logging handler writes to one collection at one level. A provider is its
  resource attributes and what is attached to it.
\<close>

datatype span_processor = BatchSpanProcessor collection

datatype metric_reader = PeriodicExportingMetricReader collection

datatype log_handler = MongoLoggingHandler collection int

record tracer_provider =
  tp_resource :: pydict
  tp_span_processors :: "span_processor list"

record meter_provider =
  mp_resource :: pydict
  mp_metric_readers :: "metric_reader list"

text \<open>
  What the endpoint does that can be observed from outside, in the order it happens: the
  additions to the two counters, the span of the upstream fetch and its attributes, and
  the outbound request.
\<close>

datatype app_event =
    RequestCounterAdd int pydict
  | ArticleCounterAdd int pydict
  | SpanStart string
  | SpanSetAttribute string py
  | HttpGet string pydict

text \<open>The numeric levels of the \<open>logging\<close> module.\<close>

definition logging_INFO :: int where
  "logging_INFO = 20"

definition logging_WARNING :: int where
  "logging_WARNING = 30"

definition logging_ERROR :: int where
  "logging_ERROR = 40"

text \<open>
  The state of the process: the global \<open>_client\<close> and the number of client objects
  constructed so far, the writes that reached the database, the calls made on the module
  loggers, the records handed to \<open>logging.Handler.handleError\<close>, the root logger (its
  level, the handlers of class \<open>MongoLoggingHandler\<close> in the order they were added, and
  the number of its other handlers, which write to a stream), the calls of
  \<open>logging.basicConfig\<close>, the settings made on named loggers, the process-wide tracer and
  meter providers, and the events of the endpoint. A fresh process has the root logger at
  \<open>WARNING\<close> without handlers.
\<close>

record world =
  client_global :: "mongo_client option"
  clients_constructed :: nat
  insert_many_calls :: "(string \<times> py list) list"
  insert_one_calls :: "(string \<times> py) list"
  stored :: "(string \<times> py) list"
  log_calls :: "log_call list"
  handle_error_calls :: "log_record list"
  root_level :: int
  root_handlers :: "log_handler list"
  other_root_handlers :: nat
  basic_config_calls :: "int list"
  logger_settings :: "(string \<times> string) list"
  tracer_provider_global :: "tracer_provider option"
  meter_provider_global :: "meter_provider option"
  app_events :: "app_event list"

definition world0 :: world where
  "world0 = \<lparr>client_global = None, clients_constructed = 0, insert_many_calls = [],
     insert_one_calls = [], stored = [], log_calls = [], handle_error_calls = [],
     root_level = logging_WARNING, root_handlers = [], other_root_handlers = 0,
     basic_config_calls = [], logger_settings = [],
     tracer_provider_global = None, meter_provider_global = None, app_events = []\<rparr>"

section \<open>Fixed-width hexadecimal identifiers\<close>

text \<open>
  \<open>format(n, "032x")\<close> and \<open>format(n, "016x")\<close> on a Python \<open>int\<close>: lowercase hexadecimal
  digits, zero-filled after the sign up to the MINIMUM width given. A value with more
  digits than the width is written in full, and a negative value starts with \<open>-\<close>.
\<close>

definition lower_hex_chars :: string where
  "lower_hex_chars = ''0123456789abcdef''"

definition hex_digit :: "nat \<Rightarrow> char" where
  "hex_digit d = lower_hex_chars ! d"

fun hex_digits :: "nat \<Rightarrow> string" where
  "hex_digits n =
     (if n < 16 then [hex_digit n] else hex_digits (n div 16) @ [hex_digit (n mod 16)])"

declare hex_digits.simps [simp del]

definition format_0x :: "nat \<Rightarrow> int \<Rightarrow> string" where
  "format_0x width n =
     (if n < 0
      then (let ds = hex_digits (nat (- n))
            in CHR ''-'' # replicate (width - 1 - length ds) CHR ''0'' @ ds)
      else (let ds = hex_digits (nat n)
            in replicate (width - length ds) CHR ''0'' @ ds))"

section \<open>The logging handler and the calls on the module loggers\<close>

text \<open>
  \<open>self.formatException(record.exc_info)\<close>: \<open>MongoLoggingHandler\<close> extends
  \<open>logging.Handler\<close> and defines \<open>emit\<close> only. \<open>logging.Handler\<close> has no attribute
  \<open>formatException\<close> (the method of that name belongs to \<open>logging.Formatter\<close>), so the
  lookup raises \<open>AttributeError\<close> whatever the argument.
\<close>

definition formatException :: "string \<Rightarrow> exn + string" where
  "formatException exc_info =
     Inl (AttributeError ''MongoLoggingHandler object has no attribute formatException'')"

text \<open>
  The document of a record, built inside the \<open>try\<close> of \<open>emit\<close> before \<open>insert_one\<close> is
  called. The last entry is \<open>self.formatException(record.exc_info) if record.exc_info else
  None\<close>: the method is looked up only for a record that carries exception information.
\<close>

definition log_document :: "log_record \<Rightarrow> exn + py" where
  "log_document record =
     bind_exn
       (case rec_exc_info record of
          None \<Rightarrow> Inr PNone
        | Some exc_info \<Rightarrow> bind_exn (formatException exc_info) (\<lambda>text. Inr (PStr text)))
       (\<lambda>exception. Inr (PDict
          [(''logger'', PStr (rec_name record)),
           (''level'', PStr (rec_levelname record)),
           (''message'', PStr (rec_message record)),
           (''created_at'', PDatetime (rec_created record)),
           (''pathname'', PStr (rec_pathname record)),
           (''lineno'', PInt (rec_lineno record)),
           (''funcName'', PStr (rec_funcName record)),
           (''process'', py_opt_int (rec_process record)),
           (''thread'', py_opt_int (rec_thread record)),
           (''module'', PStr (rec_module record)),
           (''processName'', py_opt_str (rec_processName record)),
           (''args'', (case rec_args record of PTuple xs \<Rightarrow> PList xs | v \<Rightarrow> v)),
           (''exception'', exception)]))"

definition insert_one :: "collection \<Rightarrow> py \<Rightarrow> world \<Rightarrow> (exn + unit) \<times> world" where
  "insert_one coll document w =
     (let w1 = w\<lparr>insert_one_calls := insert_one_calls w @ [(collection_name coll, document)]\<rparr>
      in case insert_one_raises coll document of
           Some e \<Rightarrow> (Inl e, w1)
         | None \<Rightarrow> (Inr (), w1\<lparr>stored := stored w1 @ [(collection_name coll, document)]\<rparr>))"

text \<open>
  \<open>logging.Handler.handleError\<close>, the logging subsystem's own path for a failed emit: the
  record is taken, a diagnostic may go to standard error, and the call returns.
\<close>

definition handleError :: "log_record \<Rightarrow> world \<Rightarrow> world" where
  "handleError record w = w\<lparr>handle_error_calls := handle_error_calls w @ [record]\<rparr>"

text \<open>
  The \<open>except PyMongoError\<close> clause of \<open>emit\<close>: a database error goes to \<open>handleError\<close>,
  any other exception leaves \<open>emit\<close>.
\<close>

definition except_PyMongoError ::
  "log_record \<Rightarrow> exn \<Rightarrow> world \<Rightarrow> (exn + unit) \<times> world" where
  "except_PyMongoError record exc w =
     (if is_PyMongoError exc then (Inr (), handleError record w) else (Inl exc, w))"

text \<open>
  \<open>MongoLoggingHandler.emit\<close>: inside \<open>try\<close>, the document is built and handed to one
  \<open>insert_one\<close>.
\<close>

definition emit :: "collection \<Rightarrow> log_record \<Rightarrow> world \<Rightarrow> (exn + unit) \<times> world" where
  "emit coll record w =
     (case log_document record of
        Inl exc \<Rightarrow> except_PyMongoError record exc w
      | Inr document \<Rightarrow>
          (case insert_one coll document w of
             (Inl exc, w1) \<Rightarrow> except_PyMongoError record exc w1
           | (Inr u, w1) \<Rightarrow> (Inr (), w1)))"

text \<open>
  \<open>Logger.callHandlers\<close> for the root logger's \<open>MongoLoggingHandler\<close>s: a handler whose
  level the record reaches handles it, in the order of registration, and an exception
  of \<open>emit\<close> is not caught on the way back to the logging call. The root logger's other
  handlers write to a stream and return.
\<close>

fun handler_level :: "log_handler \<Rightarrow> int" where
  "handler_level (MongoLoggingHandler coll level) = level"

fun handler_collection :: "log_handler \<Rightarrow> collection" where
  "handler_collection (MongoLoggingHandler coll level) = coll"

fun callHandlers ::
  "log_handler list \<Rightarrow> int \<Rightarrow> log_record \<Rightarrow> world \<Rightarrow> (exn + unit) \<times> world" where
  "callHandlers [] levelno record w = (Inr (), w)"
| "callHandlers (hdlr # hdlrs) levelno record w =
     (if handler_level hdlr \<le> levelno
      then (case emit (handler_collection hdlr) record w of
              (Inl exc, w1) \<Rightarrow> (Inl exc, w1)
            | (Inr u, w1) \<Rightarrow> callHandlers hdlrs levelno record w1)
      else callHandlers hdlrs levelno record w)"

text \<open>
  The record of \<open>logger.exception(msg, exc)\<close>: level \<open>ERROR\<close>, the rendered message, the
  exception as argument, and the exception information of the \<open>except\<close> clause it is
  called in. Time, source location, process and thread are filled in by the runtime; they
  are left at fixed values here.
\<close>

definition exception_record :: "string \<Rightarrow> string \<Rightarrow> exn \<Rightarrow> log_record" where
  "exception_record logger_name msg exc =
     \<lparr>rec_name = logger_name, rec_levelname = ''ERROR'', rec_message = msg @ str_exn exc,
      rec_created = PyFloat 0 0, rec_pathname = [], rec_lineno = 0, rec_funcName = [],
      rec_process = None, rec_thread = None, rec_module = [], rec_processName = None,
      rec_args = PTuple [PStr (str_exn exc)], rec_exc_info = Some (str_exn exc)\<rparr>"

text \<open>
  \<open>logger.exception(msg, exc)\<close> on a module logger (\<open>app.telemetry\<close>, \<open>app.main\<close>). The
  module loggers have no level and no handlers of their own: the record is made when the
  root logger's level admits \<open>ERROR\<close>, and it propagates to the root logger's handlers.
  What a handler raises is raised by the logging call.
\<close>

definition logger_exception ::
  "string \<Rightarrow> string \<Rightarrow> exn \<Rightarrow> world \<Rightarrow> (exn + unit) \<times> world" where
  "logger_exception logger_name msg exc w =
     (let w1 = w\<lparr>log_calls := log_calls w @ [LogException (msg @ str_exn exc)]\<rparr>
      in if root_level w1 \<le> logging_ERROR
         then callHandlers (root_handlers w1) logging_ERROR
                (exception_record logger_name msg exc) w1
         else (Inr (), w1))"

text \<open>
  \<open>logger.exception(...)\<close> followed by \<open>return result\<close> or \<open>raise exc\<close>: the second
  statement is reached only when the logging call returns.
\<close>

definition and_then ::
  "(exn + unit) \<times> world \<Rightarrow> exn + 'a \<Rightarrow> (exn + 'a) \<times> world" where
  "and_then logged outcome =
     (case logged of (Inl e, w) \<Rightarrow> (Inl e, w) | (Inr u, w) \<Rightarrow> (outcome, w))"

section \<open>The span exporter\<close>

record span_context =
  trace_id :: int
  span_id :: int
  trace_state_header :: string

datatype span_kind = INTERNAL | SERVER | CLIENT | PRODUCER | CONSUMER

fun span_kind_name :: "span_kind \<Rightarrow> string" where
  "span_kind_name INTERNAL = ''INTERNAL''"
| "span_kind_name SERVER = ''SERVER''"
| "span_kind_name CLIENT = ''CLIENT''"
| "span_kind_name PRODUCER = ''PRODUCER''"
| "span_kind_name CONSUMER = ''CONSUMER''"

datatype status_code = UNSET | OK | ERROR

fun status_code_name :: "status_code \<Rightarrow> string" where
  "status_code_name UNSET = ''UNSET''"
| "status_code_name OK = ''OK''"
| "status_code_name ERROR = ''ERROR''"

record span_status =
  status_status_code :: status_code
  status_description :: "string option"

record span_event =
  event_name :: string
  event_timestamp :: int
  event_attributes :: pydict

record span_link =
  link_context :: span_context
  link_attributes :: "pydict option"

record readable_span =
  span_name :: string
  span_get_span_context :: span_context
  span_parent :: "span_context option"
  span_kind :: span_kind
  span_start_time :: "int option"
  span_end_time :: "int option"
  span_status :: span_status
  span_attributes :: pydict
  span_events :: "span_event list"
  span_links :: "span_link list"

definition event_document :: "span_event \<Rightarrow> py" where
  "event_document event = PDict
     [(''name'', PStr (event_name event)),
      (''timestamp'', PInt (event_timestamp event)),
      (''attributes'', PDict (serialize_attributes (event_attributes event)))]"

text \<open>\<open>link.attributes or {}\<close>: a missing or empty mapping becomes the empty dict.\<close>

definition link_document :: "span_link \<Rightarrow> py" where
  "link_document link = PDict
     [(''context'', PDict
         [(''trace_id'', PStr (format_0x 32 (trace_id (link_context link)))),
          (''span_id'', PStr (format_0x 16 (span_id (link_context link))))]),
      (''attributes'', PDict (serialize_attributes
         (case link_attributes link of None \<Rightarrow> [] | Some a \<Rightarrow> a)))]"

definition span_document :: "readable_span \<Rightarrow> py" where
  "span_document span =
     (let span_context = span_get_span_context span;
          parent = span_parent span
      in PDict
        [(''name'', PStr (span_name span)),
         (''context'', PDict
            [(''trace_id'', PStr (format_0x 32 (trace_id span_context))),
             (''span_id'', PStr (format_0x 16 (span_id span_context))),
             (''trace_state'', PStr (trace_state_header span_context))]),
         (''parent_span_id'',
            (case parent of None \<Rightarrow> PNone | Some p \<Rightarrow> PStr (format_0x 16 (span_id p)))),
         (''kind'', PStr (span_kind_name (span_kind span))),
         (''start_time'', py_opt_int (span_start_time span)),
         (''end_time'', py_opt_int (span_end_time span)),
         (''status'', PDict
            [(''status_code'', PStr (status_code_name (status_status_code (span_status span)))),
             (''description'', py_opt_str (status_description (span_status span)))]),
         (''attributes'', PDict (serialize_attributes (span_attributes span))),
         (''events'', PList (map event_document (span_events span))),
         (''links'', PList (map link_document (span_links span)))])"

text \<open>The \<open>for span in spans\<close> loop of \<open>MongoSpanExporter.export\<close>: one document per span.\<close>

definition span_documents :: "readable_span list \<Rightarrow> py list" where
  "span_documents spans = map span_document spans"

datatype SpanExportResult = SpanExportResult_SUCCESS | SpanExportResult_FAILURE

text \<open>
  \<open>collection.insert_many(documents)\<close>: the call is recorded; the documents are stored when
  the driver raises nothing, and the driver's exception is the result otherwise.
\<close>

definition insert_many :: "collection \<Rightarrow> py list \<Rightarrow> world \<Rightarrow> (exn + unit) \<times> world" where
  "insert_many coll documents w =
     (let w1 = w\<lparr>insert_many_calls := insert_many_calls w @ [(collection_name coll, documents)]\<rparr>
      in case insert_many_raises coll documents of
           Some e \<Rightarrow> (Inl e, w1)
         | None \<Rightarrow> (Inr (), w1\<lparr>stored := stored w1 @ map (Pair (collection_name coll)) documents\<rparr>))"

text \<open>
  \<open>MongoSpanExporter.export\<close>. Only \<open>PyMongoError\<close> is caught; any other exception of the
  insert leaves the method, and so does an exception of the logging call in the \<open>except\<close>
  clause.
\<close>

definition span_export ::
  "collection \<Rightarrow> readable_span list \<Rightarrow> world \<Rightarrow> (exn + SpanExportResult) \<times> world" where
  "span_export coll spans w =
     (let documents = span_documents spans
      in if documents = [] then (Inr SpanExportResult_SUCCESS, w)
         else (case insert_many coll documents w of
                 (Inl exc, w1) \<Rightarrow>
                   (if is_PyMongoError exc
                    then and_then
                           (logger_exception ''app.telemetry''
                              ''Failed to export spans to MongoDB: '' exc w1)
                           (Inr SpanExportResult_FAILURE)
                    else (Inl exc, w1))
               | (Inr u, w1) \<Rightarrow> (Inr SpanExportResult_SUCCESS, w1)))"

section \<open>The metric exporter\<close>

text \<open>
  A data point is read defensively (\<open>getattr\<close> with a default, \<open>hasattr\<close>), so it is
  modelled by what those reads see: the two time stamps and the attribute mapping, each
  possibly absent, and the remaining attributes of the point object by name.
\<close>

record data_point =
  point_time_unix_nano :: "int option"
  point_start_time_unix_nano :: "int option"
  point_attributes :: "pydict option"
  point_fields :: pydict

record metric =
  metric_name :: string
  metric_description :: "string option"
  metric_unit :: "string option"
  metric_data_points :: "data_point list"

record scope_metrics =
  scope_name :: string
  scope_version :: "string option"
  scope_metrics_list :: "metric list"

record resource_metrics =
  resource_attributes :: pydict
  resource_scope_metrics :: "scope_metrics list"

type_synonym metrics_data = "resource_metrics list"

definition payload_attr_names :: "string list" where
  "payload_attr_names =
     [''value'', ''count'', ''sum'', ''min'', ''max'', ''last'', ''bucket_counts'', ''boundaries'']"

definition point_payload :: "data_point \<Rightarrow> py" where
  "point_payload point =
     PDict (foldl
       (\<lambda>payload attr_name.
          case map_of (point_fields point) attr_name of
            None \<Rightarrow> payload
          | Some val \<Rightarrow> dict_set payload attr_name (list_if_sequence val))
       [(''time_unix_nano'', py_opt_int (point_time_unix_nano point)),
        (''start_time_unix_nano'', py_opt_int (point_start_time_unix_nano point)),
        (''attributes'', PDict (serialize_attributes
           (case point_attributes point of None \<Rightarrow> [] | Some a \<Rightarrow> a)))]
       payload_attr_names)"

text \<open>
  The body of the innermost \<open>for metric in scope_metrics.metrics\<close> loop: the data points
  are collected, and the document is appended whatever their number.
\<close>

definition metric_document :: "pydict \<Rightarrow> py \<Rightarrow> metric \<Rightarrow> py" where
  "metric_document resource_attrs scope_info m =
     (let datapoints = map point_payload (metric_data_points m)
      in PDict
        [(''name'', PStr (metric_name m)),
         (''description'', py_opt_str (metric_description m)),
         (''unit'', py_opt_str (metric_unit m)),
         (''resource'', PDict resource_attrs),
         (''instrumentation_scope'', scope_info),
         (''data'', PList datapoints)])"

definition scope_documents :: "pydict \<Rightarrow> scope_metrics \<Rightarrow> py list" where
  "scope_documents resource_attrs sm =
     (let scope_info = PDict [(''name'', PStr (scope_name sm)),
                              (''version'', py_opt_str (scope_version sm))]
      in map (metric_document resource_attrs scope_info) (scope_metrics_list sm))"

definition resource_documents :: "resource_metrics \<Rightarrow> py list" where
  "resource_documents rm =
     (let resource_attrs = serialize_attributes (resource_attributes rm)
      in concat (map (scope_documents resource_attrs) (resource_scope_metrics rm)))"

definition metric_documents :: "metrics_data \<Rightarrow> py list" where
  "metric_documents md = concat (map resource_documents md)"

datatype MetricExportResult = MetricExportResult_SUCCESS | MetricExportResult_FAILURE

text \<open>
  \<open>MongoMetricExporter.export\<close>: the flattened documents, the emptiness check on the
  list of documents, and one bulk insert guarded by \<open>except PyMongoError\<close>.
\<close>

definition metric_export ::
  "collection \<Rightarrow> metrics_data \<Rightarrow> world \<Rightarrow> (exn + MetricExportResult) \<times> world" where
  "metric_export coll md w =
     (let documents = metric_documents md
      in if documents = [] then (Inr MetricExportResult_SUCCESS, w)
         else (case insert_many coll documents w of
                 (Inl exc, w1) \<Rightarrow>
                   (if is_PyMongoError exc
                    then and_then
                           (logger_exception ''app.telemetry''
                              ''Failed to export metrics to MongoDB: '' exc w1)
                           (Inr MetricExportResult_FAILURE)
                    else (Inl exc, w1))
               | (Inr u, w1) \<Rightarrow> (Inr MetricExportResult_SUCCESS, w1)))"

text \<open>The metrics of a snapshot in the order the three nested loops visit them.\<close>

definition all_metrics :: "metrics_data \<Rightarrow> metric list" where
  "all_metrics md =
     concat (map (\<lambda>rm. concat (map scope_metrics_list (resource_scope_metrics rm))) md)"

text \<open>The length of the \<open>data\<close> list of a metric document.\<close>

definition datapoint_count :: "py \<Rightarrow> nat option" where
  "datapoint_count d =
     (case doc_get d ''data'' of Some (PList pts) \<Rightarrow> Some (length pts) | _ \<Rightarrow> None)"

section \<open>The database client and the bootstrap\<close>

text \<open>
  What the module takes from outside: the environment variables (after the \<^verbatim>\<open>.env\<close> file
  was loaded), Python's \<open>int\<close> on a string, the level \<open>getattr(logging, s.upper(),
  logging.INFO)\<close> resolves a name to, and what the driver does: whether constructing a
  client, \<open>client[db_name]\<close> or \<open>database[name]\<close> raises, and whether a write to a named
  collection raises.
\<close>

record platform =
  environ :: "string \<Rightarrow> string option"
  py_int :: "string \<Rightarrow> exn + int"
  logging_level :: "string \<Rightarrow> int"
  MongoClient_raises :: "client_kwargs \<Rightarrow> exn option"
  get_database_raises :: "string \<Rightarrow> exn option"
  get_collection_raises :: "string \<Rightarrow> exn option"
  collection_insert_many_raises :: "string \<Rightarrow> py list \<Rightarrow> exn option"
  collection_insert_one_raises :: "string \<Rightarrow> py \<Rightarrow> exn option"

text \<open>\<open>os.getenv(key)\<close> and \<open>os.getenv(key, default)\<close>\<close>

definition getenv :: "platform \<Rightarrow> string \<Rightarrow> string option" where
  "getenv plat key = environ plat key"

definition getenv_default :: "platform \<Rightarrow> string \<Rightarrow> string \<Rightarrow> string" where
  "getenv_default plat key dflt = (case environ plat key of None \<Rightarrow> dflt | Some v \<Rightarrow> v)"

text \<open>The truth value of an \<open>Optional[str]\<close>: \<open>None\<close> and the empty string are false.\<close>

fun truthy :: "string option \<Rightarrow> bool" where
  "truthy None = False"
| "truthy (Some s) = (s \<noteq> [])"

text \<open>
  \<open>logger.debug(msg)\<close> in \<open>_mongo_client\<close>. The call is made only while no client is
  cached, and the handler of this module is added only after a client was cached, so
  the record reaches no \<open>MongoLoggingHandler\<close>: the call is recorded.
\<close>

definition logger_debug :: "string \<Rightarrow> world \<Rightarrow> world" where
  "logger_debug msg w = w\<lparr>log_calls := log_calls w @ [LogDebug msg]\<rparr>"

text \<open>
  \<open>_client = MongoClient(...)\<close>: the assignment happens only when the constructor returns.
\<close>

definition new_client ::
  "platform \<Rightarrow> client_kwargs \<Rightarrow> world \<Rightarrow> (exn + mongo_client) \<times> world" where
  "new_client plat kwargs w =
     (case MongoClient_raises plat kwargs of
        Some e \<Rightarrow> (Inl e, w)
      | None \<Rightarrow>
          (let c = \<lparr>client_ident = clients_constructed w, client_args = kwargs\<rparr>
           in (Inr c, w\<lparr>client_global := Some c,
                        clients_constructed := Suc (clients_constructed w)\<rparr>)))"

text \<open>The arguments of \<open>MongoClient(uri, tz_aware=True)\<close>.\<close>

definition uri_kwargs :: "string \<Rightarrow> client_kwargs" where
  "uri_kwargs uri = \<lparr>kw_uri = Some uri, kw_host = None, kw_port = None, kw_tz_aware = True,
     kw_username = None, kw_password = None, kw_authSource = None\<rparr>"

text \<open>
  \<open>_mongo_client\<close>: the cached client when there is one; otherwise a client from
  \<open>MONGO_URI\<close> when that is a non-empty string, and from host, port and the optional
  credentials when it is not. \<open>int(...)\<close> of the port may raise before anything is built.
\<close>

definition mongo_client_fn :: "platform \<Rightarrow> world \<Rightarrow> (exn + mongo_client) \<times> world" where
  "mongo_client_fn plat w =
     (case client_global w of
        Some c \<Rightarrow> (Inr c, w)
      | None \<Rightarrow>
          (let uri = getenv plat ''MONGO_URI''
           in if truthy uri
              then new_client plat (uri_kwargs (the uri))
                     (logger_debug ''Connecting to MongoDB using URI'' w)
              else
                (let host = getenv_default plat ''MONGO_HOST'' ''localhost''
                 in case py_int plat (getenv_default plat ''MONGO_PORT'' ''27017'') of
                      Inl e \<Rightarrow> (Inl e, w)
                    | Inr port \<Rightarrow>
                        (let username = getenv plat ''MONGO_USERNAME'';
                             password = getenv plat ''MONGO_PASSWORD'';
                             auth_source = getenv plat ''MONGO_AUTH_SOURCE'';
                             with_login = (truthy username \<and> truthy password);
                             client_kwargs =
                               \<lparr>kw_uri = None, kw_host = Some host, kw_port = Some port,
                                kw_tz_aware = True,
                                kw_username = (if with_login then username else None),
                                kw_password = (if with_login then password else None),
                                kw_authSource = (if truthy auth_source then auth_source else None)\<rparr>
                         in new_client plat client_kwargs w))))"

record database =
  db_client :: mongo_client
  db_name :: string

text \<open>\<open>_mongo_database\<close>\<close>

definition mongo_database :: "platform \<Rightarrow> world \<Rightarrow> (exn + database) \<times> world" where
  "mongo_database plat w =
     (case mongo_client_fn plat w of
        (Inl e, w1) \<Rightarrow> (Inl e, w1)
      | (Inr client, w1) \<Rightarrow>
          (let name = getenv_default plat ''MONGO_DB_NAME'' ''telemetry''
           in case get_database_raises plat name of
                Some e \<Rightarrow> (Inl e, w1)
              | None \<Rightarrow> (Inr \<lparr>db_client = client, db_name = name\<rparr>, w1)))"

text \<open>\<open>database[name]\<close>: the handle of a named collection, or the driver's exception.\<close>

definition get_collection :: "platform \<Rightarrow> database \<Rightarrow> string \<Rightarrow> exn + collection" where
  "get_collection plat db name =
     (case get_collection_raises plat name of
        Some e \<Rightarrow> Inl e
      | None \<Rightarrow> Inr \<lparr>collection_name = name,
                     insert_many_raises = collection_insert_many_raises plat name,
                     insert_one_raises = collection_insert_one_raises plat name\<rparr>)"

text \<open>A sequence of calls of \<open>_mongo_client\<close>, each under its own environment and driver.\<close>

fun mongo_client_calls :: "platform list \<Rightarrow> world \<Rightarrow> world" where
  "mongo_client_calls [] w = w"
| "mongo_client_calls (plat # plats) w = mongo_client_calls plats (snd (mongo_client_fn plat w))"

text \<open>
  \<open>logging.basicConfig(level=...)\<close>: it acts only on a root logger without handlers, to
  which it adds a stream handler and whose level it sets.
\<close>

definition basicConfig :: "int \<Rightarrow> world \<Rightarrow> world" where
  "basicConfig level w =
     (let w1 = w\<lparr>basic_config_calls := basic_config_calls w @ [level]\<rparr>
      in if root_handlers w1 = [] \<and> other_root_handlers w1 = 0
         then w1\<lparr>root_level := level, other_root_handlers := 1\<rparr>
         else w1)"

text \<open>
  \<open>_configure_logging\<close>: after \<open>basicConfig\<close>, the handler is created at the configured
  level and added to the root logger.
\<close>

definition configure_logging :: "platform \<Rightarrow> collection \<Rightarrow> world \<Rightarrow> world" where
  "configure_logging plat coll w =
     (let log_level = getenv_default plat ''LOG_LEVEL'' ''INFO'';
          level = logging_level plat log_level;
          w1 = basicConfig level w
      in w1\<lparr>root_handlers := root_handlers w1 @ [MongoLoggingHandler coll level],
            logger_settings := logger_settings w1 @
              [(''httpx'', ''level=WARNING''), (''uvicorn'', ''level=WARNING''),
               (''uvicorn.error'', ''propagate=False''),
               (''uvicorn.access'', ''propagate=False'')]\<rparr>)"

text \<open>
  \<open>trace.set_tracer_provider\<close> and \<open>metrics.set_meter_provider\<close> take effect once per
  process; a later call leaves the provider that is already set.
\<close>

definition set_tracer_provider :: "tracer_provider \<Rightarrow> world \<Rightarrow> world" where
  "set_tracer_provider tp w =
     (case tracer_provider_global w of
        None \<Rightarrow> w\<lparr>tracer_provider_global := Some tp\<rparr>
      | Some old \<Rightarrow> w)"

definition set_meter_provider :: "meter_provider \<Rightarrow> world \<Rightarrow> world" where
  "set_meter_provider mp w =
     (case meter_provider_global w of
        None \<Rightarrow> w\<lparr>meter_provider_global := Some mp\<rparr>
      | Some old \<Rightarrow> w)"

text \<open>
  The body of the \<open>try\<close> block of \<open>configure_telemetry\<close>: the database handle, then the
  three collections, stopping at the first exception.
\<close>

definition acquire_collections ::
  "platform \<Rightarrow> string \<Rightarrow> string \<Rightarrow> string \<Rightarrow> world
     \<Rightarrow> (exn + collection \<times> collection \<times> collection) \<times> world" where
  "acquire_collections plat log_collection_name trace_collection_name metric_collection_name w =
     (case mongo_database plat w of
        (Inl e, w1) \<Rightarrow> (Inl e, w1)
      | (Inr db, w1) \<Rightarrow>
          (case get_collection plat db log_collection_name of
             Inl e \<Rightarrow> (Inl e, w1)
           | Inr log_collection \<Rightarrow>
               (case get_collection plat db trace_collection_name of
                  Inl e \<Rightarrow> (Inl e, w1)
                | Inr trace_collection \<Rightarrow>
                    (case get_collection plat db metric_collection_name of
                       Inl e \<Rightarrow> (Inl e, w1)
                     | Inr metric_collection \<Rightarrow>
                         (Inr (log_collection, trace_collection, metric_collection), w1)))))"

text \<open>
  The \<open>except PyMongoError\<close> clause of \<open>configure_telemetry\<close>: the failure is logged, and
  the providers get a resource only: nothing is attached to them, and no logging handler
  is added.
\<close>

definition fallback_providers :: "world \<Rightarrow> (tracer_provider \<times> meter_provider) \<times> world" where
  "fallback_providers w =
     (let resource = [(''service.name'', PStr ''devto-news-service'')];
          tracer_provider = \<lparr>tp_resource = resource, tp_span_processors = []\<rparr>;
          meter_provider = \<lparr>mp_resource = resource, mp_metric_readers = []\<rparr>;
          w1 = set_tracer_provider tracer_provider w;
          w2 = set_meter_provider meter_provider w1
      in ((tracer_provider, meter_provider), w2))"

definition fallback_telemetry ::
  "exn \<Rightarrow> world \<Rightarrow> (exn + tracer_provider \<times> meter_provider) \<times> world" where
  "fallback_telemetry exc w =
     (case logger_exception ''app.telemetry''
             ''Unable to configure MongoDB telemetry backend: '' exc
             (basicConfig logging_INFO w) of
        (Inl e, w1) \<Rightarrow> (Inl e, w1)
      | (Inr u, w1) \<Rightarrow>
          (case fallback_providers w1 of (providers, w2) \<Rightarrow> (Inr providers, w2)))"

text \<open>
  \<open>configure_telemetry\<close>. An exception of the \<open>try\<close> block that is not a
  \<open>PyMongoError\<close> (a port that is not a number) is not caught.
\<close>

definition configure_telemetry ::
  "platform \<Rightarrow> world \<Rightarrow> (exn + tracer_provider \<times> meter_provider) \<times> world" where
  "configure_telemetry plat w =
     (let log_collection_name = getenv_default plat ''MONGO_LOG_COLLECTION'' ''logs'';
          trace_collection_name = getenv_default plat ''MONGO_TRACE_COLLECTION'' ''traces'';
          metric_collection_name = getenv_default plat ''MONGO_METRIC_COLLECTION'' ''metrics''
      in case acquire_collections plat log_collection_name trace_collection_name
                metric_collection_name w of
           (Inl exc, w1) \<Rightarrow>
             (if is_PyMongoError exc then fallback_telemetry exc w1 else (Inl exc, w1))
         | (Inr (log_collection, trace_collection, metric_collection), w1) \<Rightarrow>
             (let w2 = configure_logging plat log_collection w1;
                  resource =
                    [(''service.name'',
                        PStr (getenv_default plat ''OTEL_SERVICE_NAME'' ''devto-news-service'')),
                     (''service.version'',
                        PStr (getenv_default plat ''OTEL_SERVICE_VERSION'' ''1.0.0'')),
                     (''service.instance.id'',
                        PStr (getenv_default plat ''OTEL_SERVICE_INSTANCE_ID'' ''local-instance''))];
                  tracer_provider = \<lparr>tp_resource = resource,
                     tp_span_processors = [BatchSpanProcessor trace_collection]\<rparr>;
                  w3 = set_tracer_provider tracer_provider w2;
                  meter_provider = \<lparr>mp_resource = resource,
                     mp_metric_readers = [PeriodicExportingMetricReader metric_collection]\<rparr>;
                  w4 = set_meter_provider meter_provider w3
              in (Inr (tracer_provider, meter_provider), w4)))"

section \<open>The news endpoint\<close>

record http_response =
  status_code :: int
  response_json :: "exn + py"

text \<open>
  The upstream side: \<open>client.get(url, params)\<close> returns a response or raises (a
  \<open>RequestError\<close> when there is no response at all), and \<open>raise_for_status\<close> raises
  \<open>HTTPStatusError\<close> for the status codes the client library counts as errors.
\<close>

record upstream =
  client_get :: "string \<Rightarrow> pydict \<Rightarrow> exn + http_response"
  raises_for_status :: "int \<Rightarrow> bool"

definition DEVTO_API_URL :: string where
  "DEVTO_API_URL = ''https://dev.to/api/articles''"

text \<open>
  \<open>for article in response.json()\<close>: a list yields its items, a dict its keys, a string its
  characters; nothing else that JSON decodes to can be iterated.
\<close>

fun py_iter :: "py \<Rightarrow> exn + py list" where
  "py_iter (PList xs) = Inr xs"
| "py_iter (PTuple xs) = Inr xs"
| "py_iter (PDict kvs) = Inr (map (\<lambda>kv. PStr (fst kv)) kvs)"
| "py_iter (PStr s) = Inr (map (\<lambda>c. PStr [c]) s)"
| "py_iter v = Inl (TypeError ''object is not iterable'')"

text \<open>\<open>obj.get(key)\<close> and \<open>obj.get(key, default)\<close>: only a dict has the method.\<close>

fun py_get :: "py \<Rightarrow> string \<Rightarrow> py \<Rightarrow> exn + py" where
  "py_get (PDict kvs) key dflt = Inr (case map_of kvs key of None \<Rightarrow> dflt | Some v \<Rightarrow> v)"
| "py_get v key dflt = Inl (AttributeError ''object has no attribute get'')"

text \<open>
  The reduced projection of one upstream article; the ten \<open>get\<close> calls are evaluated in
  the order of the dict display.
\<close>

definition project_article :: "py \<Rightarrow> exn + py" where
  "project_article article =
     bind_exn (py_get article ''id'' PNone) (\<lambda>a_id.
     bind_exn (py_get article ''title'' PNone) (\<lambda>a_title.
     bind_exn (py_get article ''url'' PNone) (\<lambda>a_url.
     bind_exn (py_get article ''description'' PNone) (\<lambda>a_description.
     bind_exn (py_get article ''published_at'' PNone) (\<lambda>a_published_at.
     bind_exn (py_get article ''tags'' PNone) (\<lambda>a_tags.
     bind_exn (py_get article ''user'' (PDict [])) (\<lambda>user1.
     bind_exn (py_get user1 ''name'' PNone) (\<lambda>u_name.
     bind_exn (py_get article ''user'' (PDict [])) (\<lambda>user2.
     bind_exn (py_get user2 ''username'' PNone) (\<lambda>u_username.
       Inr (PDict
         [(''id'', a_id),
          (''title'', a_title),
          (''url'', a_url),
          (''description'', a_description),
          (''published_at'', a_published_at),
          (''tags'', a_tags),
          (''user'', PDict [(''name'', u_name), (''username'', u_username)])])))))))))))"

text \<open>The loop that appends one projection per item and stops at the first exception.\<close>

fun project_articles :: "py list \<Rightarrow> py list \<Rightarrow> exn + py list" where
  "project_articles articles [] = Inr articles"
| "project_articles articles (article # rest) =
     (case project_article article of
        Inl e \<Rightarrow> Inl e
      | Inr projected \<Rightarrow> project_articles (articles @ [projected]) rest)"

definition record_events :: "app_event list \<Rightarrow> world \<Rightarrow> world" where
  "record_events evs w = w\<lparr>app_events := app_events w @ evs\<rparr>"

text \<open>
  \<open>_fetch_articles\<close>: the span attributes, the outbound request, \<open>raise_for_status\<close>,
  and then the projection of every item of the decoded body. \<open>per_page\<close> is sent to the
  upstream API; the result is not cut to it.
\<close>

definition fetch_articles ::
  "upstream \<Rightarrow> string \<Rightarrow> int \<Rightarrow> world \<Rightarrow> (exn + py list) \<times> world" where
  "fetch_articles up tag per_page w =
     (let params = [(''tag'', PStr tag), (''per_page'', PInt per_page)];
          w1 = record_events
            [SpanStart ''devto.fetch_articles'',
             SpanSetAttribute ''http.method'' (PStr ''GET''),
             SpanSetAttribute ''http.url'' (PStr DEVTO_API_URL),
             SpanSetAttribute ''devto.tag'' (PStr tag),
             SpanSetAttribute ''devto.per_page'' (PInt per_page),
             HttpGet DEVTO_API_URL params] w
      in case client_get up DEVTO_API_URL params of
           Inl e \<Rightarrow> (Inl e, w1)
         | Inr response \<Rightarrow>
             (let w2 = record_events
                    [SpanSetAttribute ''http.status_code'' (PInt (status_code response))] w1
              in if raises_for_status up (status_code response)
                 then (Inl (HTTPStatusError (status_code response)), w2)
                 else (case response_json response of
                         Inl e \<Rightarrow> (Inl e, w2)
                       | Inr body \<Rightarrow>
                           (case py_iter body of
                              Inl e \<Rightarrow> (Inl e, w2)
                            | Inr items \<Rightarrow> (project_articles [] items, w2)))))"

text \<open>
  The two \<open>except\<close> clauses of the handler: an \<open>HTTPStatusError\<close> and a \<open>RequestError\<close> are
  logged with \<open>logger.exception\<close> and then turned into the framework's \<open>HTTPException\<close>;
  any other exception leaves the handler as it is. The \<open>raise\<close> follows the logging call,
  so it is reached only when that call returns.
\<close>

definition upstream_failure :: "exn \<Rightarrow> world \<Rightarrow> (exn + py) \<times> world" where
  "upstream_failure exc w =
     (case exc of
        HTTPStatusError s \<Rightarrow>
          and_then (logger_exception ''app.main'' ''DEV.to API returned an error: '' exc w)
            (Inl (HTTPException s ''Upstream error from DEV.to API''))
      | RequestError m \<Rightarrow>
          and_then
            (logger_exception ''app.main'' ''Failed to communicate with DEV.to API: '' exc w)
            (Inl (HTTPException 502 ''Unable to reach DEV.to API''))
      | _ \<Rightarrow> (Inl exc, w))"

text \<open>The handler of \<open>/news\<close>.\<close>

definition get_news ::
  "upstream \<Rightarrow> string \<Rightarrow> int \<Rightarrow> world \<Rightarrow> (exn + py) \<times> world" where
  "get_news up tag per_page w =
     (let w1 = record_events [RequestCounterAdd 1 [(''tag'', PStr tag)]] w
      in case fetch_articles up tag per_page w1 of
           (Inl exc, w2) \<Rightarrow> upstream_failure exc w2
         | (Inr articles, w2) \<Rightarrow>
             (Inr (PDict
                [(''source'', PStr ''DEV.to''),
                 (''tag'', PStr tag),
                 (''count'', PInt (int (length articles))),
                 (''articles'', PList articles)]),
              record_events
                [ArticleCounterAdd (int (length articles)) [(''tag'', PStr tag)]] w2))"

text \<open>
  The route as declared: \<open>tag: str = Query("technology")\<close> and
  \<open>per_page: int = Query(5, ge=1, le=30)\<close>. The framework fills in a default for a missing
  parameter and rejects an integer outside the declared bounds before the handler runs.
\<close>

record int_query =
  q_default :: int
  q_ge :: int
  q_le :: int

definition tag_default :: string where
  "tag_default = ''technology''"

definition per_page_query :: int_query where
  "per_page_query = \<lparr>q_default = 5, q_ge = 1, q_le = 30\<rparr>"

definition news_route ::
  "upstream \<Rightarrow> string option \<Rightarrow> int option \<Rightarrow> world \<Rightarrow> (exn + py) \<times> world" where
  "news_route up tag_param per_page_param w =
     (let tag = (case tag_param of None \<Rightarrow> tag_default | Some t \<Rightarrow> t)
      in case per_page_param of
           None \<Rightarrow> get_news up tag (q_default per_page_query) w
         | Some per_page \<Rightarrow>
             (if q_ge per_page_query \<le> per_page \<and> per_page \<le> q_le per_page_query
              then get_news up tag per_page w
              else (Inl RequestValidationError, w)))"

text \<open>The status code the framework answers with.\<close>

fun response_status :: "exn + py \<Rightarrow> int" where
  "response_status (Inr body) = 200"
| "response_status (Inl (HTTPException s d)) = s"
| "response_status (Inl RequestValidationError) = 422"
| "response_status (Inl e) = 500"

fun is_HttpGet :: "app_event \<Rightarrow> bool" where
  "is_HttpGet (HttpGet url params) = True"
| "is_HttpGet e = False"

fun is_ArticleCounterAdd :: "app_event \<Rightarrow> bool" where
  "is_ArticleCounterAdd (ArticleCounterAdd n attrs) = True"
| "is_ArticleCounterAdd e = False"

fun is_RequestCounterAdd :: "app_event \<Rightarrow> bool" where
  "is_RequestCounterAdd (RequestCounterAdd n attrs) = True"
| "is_RequestCounterAdd e = False"

text \<open>The \<open>articles\<close> list of a response body.\<close>

definition body_articles :: "py \<Rightarrow> py list option" where
  "body_articles body =
     (case doc_get body ''articles'' of Some (PList xs) \<Rightarrow> Some xs | _ \<Rightarrow> None)"

section \<open>Predicates of the specification and sample inputs\<close>

text \<open>
  What follows is not code of the service: the predicates in which the properties are
  stated (the shape of an identifier, the number of data points of a document, the events
  after a given point of a trace) and concrete spans, snapshots, environments and upstream
  behaviours at which the properties are evaluated.
\<close>

definition reachable_collection :: "string \<Rightarrow> collection" where
  "reachable_collection name = \<lparr>collection_name = name, insert_many_raises = (\<lambda>docs. None),
     insert_one_raises = (\<lambda>doc. None)\<rparr>"

definition unreachable_collection :: "string \<Rightarrow> collection" where
  "unreachable_collection name = \<lparr>collection_name = name,
     insert_many_raises = (\<lambda>docs. Some (PyMongoError ''connection refused'')),
     insert_one_raises = (\<lambda>doc. Some (PyMongoError ''connection refused''))\<rparr>"

definition is_hex_id :: "nat \<Rightarrow> py \<Rightarrow> bool" where
  "is_hex_id w v =
     (case v of PStr s \<Rightarrow> length s = w \<and> list_all (\<lambda>c. c \<in> set lower_hex_chars) s | _ \<Rightarrow> False)"

definition context_ids_ok :: "py \<Rightarrow> bool" where
  "context_ids_ok d =
     (case doc_get d ''context'' of
        None \<Rightarrow> False
      | Some c \<Rightarrow>
          (case doc_get c ''trace_id'' of None \<Rightarrow> False | Some t \<Rightarrow> is_hex_id 32 t) \<and>
          (case doc_get c ''span_id'' of None \<Rightarrow> False | Some t \<Rightarrow> is_hex_id 16 t))"

definition span_document_ids_ok :: "readable_span \<Rightarrow> py \<Rightarrow> bool" where
  "span_document_ids_ok span d =
     (context_ids_ok d \<and>
      (case doc_get d ''links'' of
         Some (PList ls) \<Rightarrow> length ls = length (span_links span) \<and> list_all context_ids_ok ls
       | _ \<Rightarrow> False) \<and>
      (case span_parent span of
         None \<Rightarrow> doc_get d ''parent_span_id'' = Some PNone
       | Some p \<Rightarrow>
           (case doc_get d ''parent_span_id'' of None \<Rightarrow> False | Some v \<Rightarrow> is_hex_id 16 v)))"

definition context_in_range :: "span_context \<Rightarrow> bool" where
  "context_in_range c =
     (0 \<le> trace_id c \<and> trace_id c < 2 ^ 128 \<and> 0 \<le> span_id c \<and> span_id c < 2 ^ 64)"

definition span_ids_in_range :: "readable_span \<Rightarrow> bool" where
  "span_ids_in_range span =
     (context_in_range (span_get_span_context span) \<and>
      (case span_parent span of None \<Rightarrow> True | Some p \<Rightarrow> 0 \<le> span_id p \<and> span_id p < 2 ^ 64) \<and>
      list_all (\<lambda>l. context_in_range (link_context l)) (span_links span))"

definition plain_span :: "int \<Rightarrow> int \<Rightarrow> readable_span" where
  "plain_span t s =
     \<lparr>span_name = ''GET /news'',
      span_get_span_context = \<lparr>trace_id = t, span_id = s, trace_state_header = ''''\<rparr>,
      span_parent = None, span_kind = SERVER, span_start_time = Some 1, span_end_time = Some 2,
      span_status = \<lparr>status_status_code = UNSET, status_description = None\<rparr>,
      span_attributes = [], span_events = [], span_links = []\<rparr>"

definition wide_span :: readable_span where
  "wide_span = plain_span 340282366920938463463374607431768211456 1"

definition counter_metric :: "data_point list \<Rightarrow> metric" where
  "counter_metric points = \<lparr>metric_name = ''devto.news.requests'',
     metric_description = Some ''Number of calls to the /news endpoint'',
     metric_unit = Some '''', metric_data_points = points\<rparr>"

definition snapshot_of :: "metric list \<Rightarrow> metrics_data" where
  "snapshot_of ms =
     [\<lparr>resource_attributes = [(''service.name'', PStr ''devto-news-service'')],
       resource_scope_metrics =
         [\<lparr>scope_name = ''app.main'', scope_version = None, scope_metrics_list = ms\<rparr>]\<rparr>]"

definition sum_point :: data_point where
  "sum_point = \<lparr>point_time_unix_nano = Some 2, point_start_time_unix_nano = Some 1,
     point_attributes = Some [(''tag'', PStr ''python'')], point_fields = [(''value'', PInt 3)]\<rparr>"

definition sample_record :: log_record where
  "sample_record = \<lparr>rec_name = ''app.main'', rec_levelname = ''ERROR'',
     rec_message = ''DEV.to API returned an error'', rec_created = PyFloat 1700000000 0,
     rec_pathname = ''/srv/app/main.py'', rec_lineno = 97, rec_funcName = ''get_news'',
     rec_process = Some 1, rec_thread = Some 1, rec_module = ''main'',
     rec_processName = Some ''MainProcess'', rec_args = PTuple [], rec_exc_info = None\<rparr>"

definition decimal_port :: "string \<Rightarrow> exn + int" where
  "decimal_port s = (if s = ''27017'' then Inr 27017 else Inl (ValueError s))"

definition platform_of ::
  "(string \<Rightarrow> string option) \<Rightarrow> (client_kwargs \<Rightarrow> exn option) \<Rightarrow> platform" where
  "platform_of env client_raises =
     \<lparr>environ = env, py_int = decimal_port, logging_level = (\<lambda>s. 20),
      MongoClient_raises = client_raises,
      get_database_raises = (\<lambda>name. None),
      get_collection_raises = (\<lambda>name. None),
      collection_insert_many_raises = (\<lambda>name docs. None),
      collection_insert_one_raises = (\<lambda>name doc. None)\<rparr>"

definition accepting_driver :: "client_kwargs \<Rightarrow> exn option" where
  "accepting_driver kwargs = None"

definition uri_env :: "string \<Rightarrow> string option" where
  "uri_env = [''MONGO_URI'' \<mapsto> ''mongodb://db.internal:27017'', ''MONGO_HOST'' \<mapsto> ''other.internal'',
              ''MONGO_USERNAME'' \<mapsto> ''svc'', ''MONGO_PASSWORD'' \<mapsto> ''secret'']"

definition empty_uri_env :: "string \<Rightarrow> string option" where
  "empty_uri_env = [''MONGO_URI'' \<mapsto> '''', ''MONGO_HOST'' \<mapsto> ''db.internal'']"

definition invalid_uri :: "client_kwargs \<Rightarrow> exn option" where
  "invalid_uri kwargs = Some (PyMongoError ''Invalid URI scheme'')"

definition client_cache_inv :: "world \<Rightarrow> bool" where
  "client_cache_inv w =
     (case client_global w of None \<Rightarrow> clients_constructed w = 0
      | Some c \<Rightarrow> clients_constructed w = 1)"

definition query_params :: "string \<Rightarrow> int \<Rightarrow> pydict" where
  "query_params tag per_page = [(''tag'', PStr tag), (''per_page'', PInt per_page)]"

definition upstream_items :: "upstream \<Rightarrow> string \<Rightarrow> int \<Rightarrow> py list option" where
  "upstream_items up tag per_page =
     (case client_get up DEVTO_API_URL (query_params tag per_page) of
        Inl e \<Rightarrow> None
      | Inr response \<Rightarrow>
          (case response_json response of
             Inl e \<Rightarrow> None
           | Inr body \<Rightarrow> (case py_iter body of Inl e \<Rightarrow> None | Inr items \<Rightarrow> Some items)))"

definition client_error_status :: "int \<Rightarrow> bool" where
  "client_error_status s = (400 \<le> s \<and> s \<le> 599)"

definition answering_upstream :: "int \<Rightarrow> py \<Rightarrow> upstream" where
  "answering_upstream status body =
     \<lparr>client_get = (\<lambda>url params. Inr \<lparr>status_code = status, response_json = Inr body\<rparr>),
      raises_for_status = client_error_status\<rparr>"

definition unreachable_upstream :: upstream where
  "unreachable_upstream =
     \<lparr>client_get = (\<lambda>url params. Inl (RequestError ''connection refused'')),
      raises_for_status = client_error_status\<rparr>"

definition response_count :: "exn + py \<Rightarrow> py option" where
  "response_count r = (case r of Inl e \<Rightarrow> None | Inr body \<Rightarrow> doc_get body ''count'')"

definition response_articles_length :: "exn + py \<Rightarrow> nat option" where
  "response_articles_length r =
     (case r of Inl e \<Rightarrow> None | Inr body \<Rightarrow> map_option length (body_articles body))"

definition two_articles :: py where
  "two_articles = PList
     [PDict [(''id'', PInt 1), (''title'', PStr ''first'')],
      PDict [(''id'', PInt 2), (''title'', PStr ''second'')]]"

definition events_after :: "app_event list \<Rightarrow> app_event list \<Rightarrow> app_event list" where
  "events_after tr tr' = drop (Suc (length tr)) tr'"

definition no_formatException :: exn where
  "no_formatException =
     AttributeError ''MongoLoggingHandler object has no attribute formatException''"

definition error_handlers :: "world \<Rightarrow> log_handler list" where
  "error_handlers w =
     (if root_level w \<le> logging_ERROR
      then filter (\<lambda>h. handler_level h \<le> logging_ERROR) (root_handlers w)
      else [])"

definition default_platform :: platform where
  "default_platform = platform_of (\<lambda>key. None) accepting_driver"

definition wired_world :: world where
  "wired_world = snd (configure_telemetry default_platform world0)"

section \<open>Properties of the logging calls\<close>

text \<open>
  A record that carries exception information never reaches the database: building its
  document raises \<open>AttributeError\<close>, which the \<open>except PyMongoError\<close> clause does not
  catch.
\<close>

lemma emit_exc_info:
  "rec_exc_info record = Some exc_info \<Longrightarrow> emit coll record w = (Inl no_formatException, w)"
  by (simp add: emit_def log_document_def formatException_def bind_exn_def
      except_PyMongoError_def no_formatException_def)

lemma emit_keeps:
  "insert_many_calls (snd (emit coll record w)) = insert_many_calls w"
  "log_calls (snd (emit coll record w)) = log_calls w"
  "root_handlers (snd (emit coll record w)) = root_handlers w"
  "app_events (snd (emit coll record w)) = app_events w"
  by (simp_all add: emit_def insert_one_def except_PyMongoError_def handleError_def Let_def
      split: sum.splits option.splits)

lemma callHandlers_keeps:
  "insert_many_calls (snd (callHandlers hs levelno record w)) = insert_many_calls w \<and>
   log_calls (snd (callHandlers hs levelno record w)) = log_calls w \<and>
   root_handlers (snd (callHandlers hs levelno record w)) = root_handlers w \<and>
   app_events (snd (callHandlers hs levelno record w)) = app_events w"
proof (induction hs arbitrary: w)
  case Nil
  show ?case by simp
next
  case (Cons h hs)
  show ?case
  proof (cases "handler_level h \<le> levelno")
    case False
    show ?thesis using False Cons.IH [of w] by simp
  next
    case True
    obtain r w1 where e: "emit (handler_collection h) record w = (r, w1)"
      by (cases "emit (handler_collection h) record w") auto
    have k: "insert_many_calls w1 = insert_many_calls w" "log_calls w1 = log_calls w"
      "root_handlers w1 = root_handlers w" "app_events w1 = app_events w"
      using emit_keeps [of "handler_collection h" "record" w] by (simp_all add: e)
    show ?thesis
    proof (cases r)
      case (Inl exc)
      with True e k show ?thesis by simp
    next
      case (Inr u)
      show ?thesis using Inr True e k Cons.IH [of w1] by simp
    qed
  qed
qed

lemma callHandlers_none:
  "filter (\<lambda>h. handler_level h \<le> levelno) hs = [] \<Longrightarrow>
     callHandlers hs levelno record w = (Inr (), w)"
  by (induction hs) (simp_all split: if_splits)

lemma callHandlers_exc_info:
  "filter (\<lambda>h. handler_level h \<le> levelno) hs \<noteq> [] \<Longrightarrow>
   rec_exc_info record = Some exc_info \<Longrightarrow>
     callHandlers hs levelno record w = (Inl no_formatException, w)"
  by (induction hs) (simp_all add: emit_exc_info split: if_splits)

text \<open>
  \<open>logger.exception\<close> always records its call; it returns when no
  \<open>MongoLoggingHandler\<close> receives error records and raises the handler's
  \<open>AttributeError\<close> otherwise.
\<close>

lemma logger_exception_eq:
  "logger_exception logger_name msg exc w =
     ((if error_handlers w = [] then Inr () else Inl no_formatException),
      w\<lparr>log_calls := log_calls w @ [LogException (msg @ str_exn exc)]\<rparr>)"
proof (cases "root_level w \<le> logging_ERROR")
  case False
  then show ?thesis by (simp add: logger_exception_def error_handlers_def Let_def)
next
  case True
  let ?w1 = "w\<lparr>log_calls := log_calls w @ [LogException (msg @ str_exn exc)]\<rparr>"
  let ?r = "exception_record logger_name msg exc"
  have x: "rec_exc_info ?r = Some (str_exn exc)" by (simp add: exception_record_def)
  show ?thesis
  proof (cases "filter (\<lambda>h. handler_level h \<le> logging_ERROR) (root_handlers w) = []")
    case e: True
    then have "callHandlers (root_handlers w) logging_ERROR ?r ?w1 = (Inr (), ?w1)"
      by (rule callHandlers_none)
    with True e show ?thesis by (simp add: logger_exception_def error_handlers_def Let_def)
  next
    case e: False
    then have "callHandlers (root_handlers w) logging_ERROR ?r ?w1 = (Inl no_formatException, ?w1)"
      using x by (rule callHandlers_exc_info)
    with True e show ?thesis by (simp add: logger_exception_def error_handlers_def Let_def)
  qed
qed

lemma error_handlers_basicConfig: "error_handlers (basicConfig level w) = error_handlers w"
  by (simp add: basicConfig_def error_handlers_def Let_def)

lemma error_handlers_record_events: "error_handlers (record_events evs w) = error_handlers w"
  by (simp add: record_events_def error_handlers_def)

text \<open>
  The process after \<open>configure_telemetry\<close> has acquired its collections under the
  default environment: the root logger is at \<open>INFO\<close> with one \<open>MongoLoggingHandler\<close> at
  \<open>INFO\<close> on the \<open>logs\<close> collection.
\<close>

lemma wired_world_handlers:
  "root_level wired_world = 20 \<and>
   map handler_level (root_handlers wired_world) = [20] \<and>
   map (\<lambda>h. collection_name (handler_collection h)) (root_handlers wired_world) = [''logs''] \<and>
   app_events wired_world = [] \<and> log_calls wired_world = []"
  by (simp add: wired_world_def default_platform_def configure_telemetry_def
      acquire_collections_def mongo_database_def mongo_client_fn_def new_client_def
      getenv_def getenv_default_def get_collection_def configure_logging_def basicConfig_def
      set_tracer_provider_def set_meter_provider_def decimal_port_def logging_WARNING_def
      platform_of_def accepting_driver_def world0_def Let_def)

lemma wired_world_error_handlers: "error_handlers wired_world \<noteq> []"
proof -
  from wired_world_handlers obtain h where
    "root_handlers wired_world = [h]" "handler_level h = 20"
    by (cases "root_handlers wired_world") auto
  with wired_world_handlers show ?thesis
    by (simp add: error_handlers_def logging_ERROR_def)
qed

section \<open>Properties of the span exporter\<close>

lemma hex_digit_lower: "d < 16 \<Longrightarrow> hex_digit d \<in> set lower_hex_chars"
  unfolding hex_digit_def by (rule nth_mem) (simp add: lower_hex_chars_def)

lemma hex_digits_lower: "set (hex_digits n) \<subseteq> set lower_hex_chars"
proof (induction n rule: hex_digits.induct)
  case (1 n)
  show ?case
  proof (cases "n < 16")
    case True
    then show ?thesis
      using hex_digit_lower [of n] by (subst hex_digits.simps) simp
  next
    case False
    have "n mod 16 < 16" by simp
    then have "hex_digit (n mod 16) \<in> set lower_hex_chars"
      by (rule hex_digit_lower)
    with False "1.IH" show ?thesis
      by (subst hex_digits.simps) simp
  qed
qed

lemma hex_digits_length: "n < 16 ^ Suc k \<Longrightarrow> length (hex_digits n) \<le> Suc k"
proof (induction k arbitrary: n)
  case 0
  then show ?case by (subst hex_digits.simps) simp
next
  case (Suc k)
  show ?case
  proof (cases "n < 16")
    case True
    then show ?thesis by (subst hex_digits.simps) simp
  next
    case False
    from Suc.prems have "n < 16 * 16 ^ Suc k" by simp
    then have "n div 16 < 16 ^ Suc k"
      by (simp only: less_mult_imp_div_less mult.commute)
    then have "length (hex_digits (n div 16)) \<le> Suc k" by (rule Suc.IH)
    with False show ?thesis by (subst hex_digits.simps) simp
  qed
qed

lemma zero_in_lower_hex: "CHR ''0'' \<in> set lower_hex_chars"
  by (simp add: lower_hex_chars_def)

lemma format_0x_hex_id:
  assumes "0 \<le> n" and "n < 16 ^ Suc k"
  shows "is_hex_id (Suc k) (PStr (format_0x (Suc k) n))"
proof -
  have "nat n < 16 ^ Suc k"
    using assms by (metis nat_less_iff of_nat_numeral of_nat_power)
  then have len: "length (hex_digits (nat n)) \<le> Suc k" by (rule hex_digits_length)
  have fmt: "format_0x (Suc k) n =
      replicate (Suc k - length (hex_digits (nat n))) CHR ''0'' @ hex_digits (nat n)"
    using assms(1) by (simp add: format_0x_def Let_def)
  have "length (format_0x (Suc k) n) = Suc k"
    unfolding fmt using len by simp
  moreover have "set (format_0x (Suc k) n) \<subseteq> set lower_hex_chars"
    unfolding fmt using hex_digits_lower [of "nat n"] zero_in_lower_hex by auto
  ultimately show ?thesis
    by (simp add: is_hex_id_def list_all_iff subset_iff)
qed

lemma pow_128: "(2::int) ^ 128 = 16 ^ Suc 31"
  by simp

lemma pow_64: "(2::int) ^ 64 = 16 ^ Suc 15"
  by simp

lemma trace_id_hex: "0 \<le> n \<Longrightarrow> n < 2 ^ 128 \<Longrightarrow> is_hex_id 32 (PStr (format_0x 32 n))"
  using format_0x_hex_id [of n 31] by (simp only: pow_128) simp

lemma span_id_hex: "0 \<le> n \<Longrightarrow> n < 2 ^ 64 \<Longrightarrow> is_hex_id 16 (PStr (format_0x 16 n))"
  using format_0x_hex_id [of n 15] by (simp only: pow_64) simp

lemma link_document_ok:
  "context_in_range (link_context l) \<Longrightarrow> context_ids_ok (link_document l)"
  by (simp add: context_in_range_def context_ids_ok_def link_document_def trace_id_hex span_id_hex)

lemma span_document_ok:
  assumes "span_ids_in_range span"
  shows "span_document_ids_ok span (span_document span)"
proof -
  from assms have ctx: "context_in_range (span_get_span_context span)"
    and par: "case span_parent span of None \<Rightarrow> True | Some p \<Rightarrow> 0 \<le> span_id p \<and> span_id p < 2 ^ 64"
    and lnk: "list_all (\<lambda>l. context_in_range (link_context l)) (span_links span)"
    by (simp_all add: span_ids_in_range_def)
  have a: "context_ids_ok (span_document span)"
    using ctx
    by (simp add: context_in_range_def context_ids_ok_def span_document_def Let_def
        trace_id_hex span_id_hex)
  have b: "doc_get (span_document span) ''links'' = Some (PList (map link_document (span_links span)))"
    by (simp add: span_document_def Let_def)
  have c: "list_all context_ids_ok (map link_document (span_links span))"
    using lnk by (simp add: list_all_iff link_document_ok)
  have d: "doc_get (span_document span) ''parent_span_id'' =
      Some (case span_parent span of None \<Rightarrow> PNone | Some p \<Rightarrow> PStr (format_0x 16 (span_id p)))"
    by (simp add: span_document_def Let_def)
  have e: "case span_parent span of
         None \<Rightarrow> doc_get (span_document span) ''parent_span_id'' = Some PNone
       | Some p \<Rightarrow>
           (case doc_get (span_document span) ''parent_span_id'' of None \<Rightarrow> False | Some v \<Rightarrow> is_hex_id 16 v)"
    unfolding d using par by (simp add: span_id_hex split: option.splits)
  show ?thesis
    unfolding span_document_ids_ok_def using a c e by (simp add: b)
qed

lemma span_export_calls:
  "insert_many_calls (snd (span_export coll spans w)) =
     insert_many_calls w @
       (if spans = [] then [] else [(collection_name coll, span_documents spans)])"
  by (simp add: span_export_def span_documents_def insert_many_def logger_exception_eq
      and_then_def Let_def split: option.splits)

text \<open>
  C1 (as amended). For every span batch whose identifiers lie in the ranges of the tracing
  API (trace identifiers in \<open>0 \<le> n < 2^128\<close>, span identifiers in \<open>0 \<le> n < 2^64\<close>, for
  the span's own context, its parent and the context of each link), every span document
  has a \<open>trace_id\<close> of exactly 32 and a \<open>span_id\<close> of exactly 16 lowercase hexadecimal
  characters, so has the context of each of its links, and \<open>parent_span_id\<close> is a string
  of exactly 16 such characters when the span has a parent and \<open>None\<close> otherwise. These
  documents are the ones \<open>MongoSpanExporter.export\<close> hands to the bulk insert.
\<close>

theorem span_ids_fixed_width:
  assumes "list_all span_ids_in_range spans"
  shows "list_all2 span_document_ids_ok spans (span_documents spans) \<and>
         insert_many_calls (snd (span_export coll spans w)) =
           insert_many_calls w @
             (if spans = [] then [] else [(collection_name coll, span_documents spans)])"
proof
  show "list_all2 span_document_ids_ok spans (span_documents spans)"
    using assms unfolding span_documents_def
    by (induction spans) (simp_all add: span_document_ok)
  show "insert_many_calls (snd (span_export coll spans w)) =
           insert_many_calls w @
             (if spans = [] then [] else [(collection_name coll, span_documents spans)])"
    by (rule span_export_calls)
qed

lemma hex_wide: "format_0x 32 340282366920938463463374607431768211456 = ''100000000000000000000000000000000''"
  by (simp add: format_0x_def hex_digits.simps hex_digit_def lower_hex_chars_def)

text \<open>
  C1, at a batch of one span with trace identifier 255 and span identifier 1.
\<close>

theorem span_ids_fixed_width_witness:
  "list_all span_ids_in_range [plain_span 255 1] \<and>
   list_all2 span_document_ids_ok [plain_span 255 1] (span_documents [plain_span 255 1]) \<and>
   insert_many_calls (snd (span_export (reachable_collection ''traces'') [plain_span 255 1] world0)) =
     [(''traces'', span_documents [plain_span 255 1])]"
proof -
  have h: "list_all span_ids_in_range [plain_span 255 1]"
    by (simp add: span_ids_in_range_def context_in_range_def plain_span_def)
  show ?thesis
    using h span_ids_fixed_width [OF h, of "reachable_collection ''traces''" world0]
    by (simp add: world0_def reachable_collection_def)
qed

text \<open>
  C1 as stated fails for a numeric value beyond 128 bits: \<open>format(2**128, "032x")\<close> gives
  the minimum width only, so the exported \<open>trace_id\<close> has 33 characters.
\<close>

theorem wide_trace_id_counterexample:
  "doc_path (span_document wide_span) [''context'', ''trace_id''] =
     Some (PStr ''100000000000000000000000000000000'') \<and>
   length ''100000000000000000000000000000000'' = 33 \<and>
   \<not> list_all2 span_document_ids_ok [wide_span] (span_documents [wide_span])"
proof -
  have p: "doc_path (span_document wide_span) [''context'', ''trace_id''] =
     Some (PStr ''100000000000000000000000000000000'')"
    by (simp add: span_document_def wide_span_def plain_span_def Let_def hex_wide)
  have "\<not> context_ids_ok (span_document wide_span)"
    by (simp add: context_ids_ok_def span_document_def wide_span_def plain_span_def Let_def
        hex_wide is_hex_id_def)
  then have "\<not> list_all2 span_document_ids_ok [wide_span] (span_documents [wide_span])"
    by (simp add: span_documents_def span_document_ids_ok_def)
  with p show ?thesis by simp
qed

text \<open>
  What \<open>MongoSpanExporter.export\<close> returns. The empty batch is a success without
  insert; a non-empty batch is inserted with exactly one bulk insert and is a success when
  the insert raises nothing. When the insert raises a database error, the error is logged
  once with \<open>logger.exception\<close>; the method returns failure when no handler of class
  \<open>MongoLoggingHandler\<close> receives the record, and otherwise the \<open>AttributeError\<close> of
  that handler's \<open>emit\<close> leaves the method in place of the result.
\<close>

lemma span_export_outcomes:
  "(spans = [] \<longrightarrow> span_export coll spans w = (Inr SpanExportResult_SUCCESS, w)) \<and>
   (spans \<noteq> [] \<and> insert_many_raises coll (span_documents spans) = None \<longrightarrow>
      span_export coll spans w =
        (Inr SpanExportResult_SUCCESS,
         w\<lparr>insert_many_calls := insert_many_calls w @ [(collection_name coll, span_documents spans)],
           stored := stored w @ map (Pair (collection_name coll)) (span_documents spans)\<rparr>)) \<and>
   (spans \<noteq> [] \<and> insert_many_raises coll (span_documents spans) = Some (PyMongoError m) \<longrightarrow>
      span_export coll spans w =
        ((if error_handlers w = [] then Inr SpanExportResult_FAILURE
          else Inl no_formatException),
         w\<lparr>insert_many_calls := insert_many_calls w @ [(collection_name coll, span_documents spans)],
           log_calls := log_calls w @ [LogException (''Failed to export spans to MongoDB: '' @ m)]\<rparr>))"
  by (simp add: span_export_def span_documents_def insert_many_def logger_exception_eq
      and_then_def error_handlers_def Let_def)

text \<open>
  C2, the code at the failing input. In the process as \<open>configure_telemetry\<close> wires it
  (the exporter exists only after the logging handler was installed), a one-span batch
  whose bulk insert raises a database error does not give a failure result: the
  \<open>AttributeError\<close> raised inside \<open>logger.exception\<close> escapes \<open>export\<close>. In a process
  without the handler the same call returns failure, as the claim says.
\<close>

theorem span_export_failure_escapes:
  "insert_many_raises (unreachable_collection ''traces'') (span_documents [plain_span 255 1]) =
     Some (PyMongoError ''connection refused'') \<and>
   fst (span_export (unreachable_collection ''traces'') [plain_span 255 1] wired_world) =
     Inl (AttributeError ''MongoLoggingHandler object has no attribute formatException'') \<and>
   fst (span_export (unreachable_collection ''traces'') [plain_span 255 1] world0) =
     Inr SpanExportResult_FAILURE"
proof -
  have a: "error_handlers world0 = []"
    by (simp add: error_handlers_def world0_def)
  have b: "insert_many_raises (unreachable_collection ''traces'')
      (span_documents [plain_span 255 1]) = Some (PyMongoError ''connection refused'')"
    by (simp add: unreachable_collection_def)
  show ?thesis
    using span_export_outcomes [of "[plain_span 255 1]" "unreachable_collection ''traces''"
        wired_world "''connection refused''"]
      span_export_outcomes [of "[plain_span 255 1]" "unreachable_collection ''traces''"
        world0 "''connection refused''"]
      a b wired_world_error_handlers
    by (simp add: no_formatException_def)
qed

section \<open>Properties of the metric exporter and the logging handler\<close>

lemma datapoint_count_metric_document:
  "datapoint_count (metric_document ra si m) = Some (length (metric_data_points m))"
  by (simp add: datapoint_count_def metric_document_def Let_def)

lemma datapoint_count_scope:
  "map datapoint_count (scope_documents ra sm) =
     map (\<lambda>m. Some (length (metric_data_points m))) (scope_metrics_list sm)"
  by (simp add: scope_documents_def Let_def datapoint_count_metric_document comp_def)

lemma datapoint_count_resource:
  "map datapoint_count (resource_documents rm) =
     map (\<lambda>m. Some (length (metric_data_points m)))
       (concat (map scope_metrics_list (resource_scope_metrics rm)))"
  unfolding resource_documents_def Let_def
  by (induction "resource_scope_metrics rm" arbitrary: rm)
     (simp_all add: map_concat comp_def datapoint_count_scope)

lemma datapoint_count_all:
  "map datapoint_count (metric_documents md) =
     map (\<lambda>m. Some (length (metric_data_points m))) (all_metrics md)"
  unfolding metric_documents_def all_metrics_def
  by (induction md) (simp_all add: datapoint_count_resource)

lemma metric_documents_Nil: "metric_documents md = [] \<longleftrightarrow> all_metrics md = []"
proof -
  have "length (map datapoint_count (metric_documents md)) =
        length (map (\<lambda>m. Some (length (metric_data_points m))) (all_metrics md))"
    by (simp only: datapoint_count_all)
  then have "length (metric_documents md) = length (all_metrics md)" by simp
  then show ?thesis by (metis length_0_conv)
qed

text \<open>
  C3 (as amended). \<open>MongoMetricExporter.export\<close> builds one document per metric of the
  snapshot, in order, and the \<open>data\<close> list of each document has exactly one entry per data
  point of its metric: it is non-empty exactly when the metric has a data point. Only a
  snapshot without any metric is skipped (success, no insert); any other snapshot is
  written with one bulk insert of all its documents.
\<close>

theorem metric_documents_datapoints:
  "map datapoint_count (metric_documents md) =
     map (\<lambda>m. Some (length (metric_data_points m))) (all_metrics md) \<and>
   (all_metrics md = [] \<longrightarrow> metric_export coll md w = (Inr MetricExportResult_SUCCESS, w)) \<and>
   (all_metrics md \<noteq> [] \<longrightarrow>
      insert_many_calls (snd (metric_export coll md w)) =
        insert_many_calls w @ [(collection_name coll, metric_documents md)])"
proof (intro conjI impI)
  show "map datapoint_count (metric_documents md) =
     map (\<lambda>m. Some (length (metric_data_points m))) (all_metrics md)"
    by (rule datapoint_count_all)
next
  assume "all_metrics md = []"
  then have "metric_documents md = []" by (simp add: metric_documents_Nil)
  then show "metric_export coll md w = (Inr MetricExportResult_SUCCESS, w)"
    by (simp add: metric_export_def)
next
  assume "all_metrics md \<noteq> []"
  then have "metric_documents md \<noteq> []" by (simp add: metric_documents_Nil)
  then show "insert_many_calls (snd (metric_export coll md w)) =
        insert_many_calls w @ [(collection_name coll, metric_documents md)]"
    by (simp add: metric_export_def insert_many_def logger_exception_eq and_then_def Let_def
        split: option.splits)
qed

text \<open>
  C3 as amended, at a snapshot with a one-point metric and a metric without points, at a
  snapshot without metrics, and at a snapshot with a single one-point metric.
\<close>

theorem metric_documents_datapoints_witness:
  "map datapoint_count (metric_documents (snapshot_of [counter_metric [sum_point], counter_metric []])) =
     [Some 1, Some 0] \<and>
   metric_export (reachable_collection ''metrics'') (snapshot_of []) world0 =
     (Inr MetricExportResult_SUCCESS, world0) \<and>
   insert_many_calls (snd (metric_export (reachable_collection ''metrics'')
       (snapshot_of [counter_metric [sum_point]]) world0)) =
     [(''metrics'', metric_documents (snapshot_of [counter_metric [sum_point]]))]"
  using metric_documents_datapoints
      [of "snapshot_of [counter_metric [sum_point], counter_metric []]"
          "reachable_collection ''metrics''" world0]
    metric_documents_datapoints [of "snapshot_of []" "reachable_collection ''metrics''" world0]
    metric_documents_datapoints
      [of "snapshot_of [counter_metric [sum_point]]" "reachable_collection ''metrics''" world0]
  by (simp add: all_metrics_def snapshot_of_def counter_metric_def sum_point_def
      reachable_collection_def world0_def)

text \<open>
  C3 as stated fails for a metric without data points: its document is inserted, with an
  empty \<open>data\<close> list.
\<close>

theorem empty_datapoints_counterexample:
  "fst (metric_export (reachable_collection ''metrics'') (snapshot_of [counter_metric []]) world0) =
     Inr MetricExportResult_SUCCESS \<and>
   map fst (stored (snd (metric_export (reachable_collection ''metrics'')
      (snapshot_of [counter_metric []]) world0))) = [''metrics''] \<and>
   map datapoint_count (map snd (stored (snd (metric_export (reachable_collection ''metrics'')
      (snapshot_of [counter_metric []]) world0)))) = [Some 0]"
  by (simp add: metric_export_def metric_documents_def resource_documents_def
      scope_documents_def metric_document_def snapshot_of_def counter_metric_def
      insert_many_def reachable_collection_def world0_def datapoint_count_def Let_def)

text \<open>
  C7. For every log record: when the document of the record is built and the
  single-document insert raises a database error, \<open>MongoLoggingHandler.emit\<close> hands the
  record to \<open>handleError\<close> once and returns normally, so the database error does not
  reach the call site that logged; and when the document cannot be built, no insert is
  attempted, so there is no database error to absorb.
\<close>

theorem emit_absorbs_database_error:
  "(log_document record = Inr document \<and>
    insert_one_raises coll document = Some (PyMongoError m) \<longrightarrow>
      emit coll record w =
        (Inr (),
         w\<lparr>insert_one_calls := insert_one_calls w @ [(collection_name coll, document)],
           handle_error_calls := handle_error_calls w @ [record]\<rparr>)) \<and>
   (log_document record = Inl exc \<longrightarrow>
      insert_one_calls (snd (emit coll record w)) = insert_one_calls w)"
  by (simp add: emit_def insert_one_def except_PyMongoError_def handleError_def Let_def)

text \<open>
  C7, at a record without exception information and a database that refuses the
  connection, and at a record made by \<open>logger.exception\<close>, whose document cannot be
  built.
\<close>

theorem emit_absorbs_database_error_witness:
  "(\<exists>document. log_document sample_record = Inr document \<and>
      insert_one_raises (unreachable_collection ''logs'') document =
        Some (PyMongoError ''connection refused'')) \<and>
   fst (emit (unreachable_collection ''logs'') sample_record world0) = Inr () \<and>
   handle_error_calls (snd (emit (unreachable_collection ''logs'') sample_record world0)) =
     [sample_record] \<and>
   length (insert_one_calls (snd (emit (unreachable_collection ''logs'') sample_record world0))) = 1 \<and>
   stored (snd (emit (unreachable_collection ''logs'') sample_record world0)) = [] \<and>
   log_document (exception_record ''app.main'' ''DEV.to API returned an error: ''
      (HTTPStatusError 503)) = Inl no_formatException \<and>
   insert_one_calls (snd (emit (unreachable_collection ''logs'')
      (exception_record ''app.main'' ''DEV.to API returned an error: '' (HTTPStatusError 503))
      world0)) = []"
proof -
  obtain document where d: "log_document sample_record = Inr document"
    by (simp add: log_document_def bind_exn_def sample_record_def)
  have h: "insert_one_raises (unreachable_collection ''logs'') document =
     Some (PyMongoError ''connection refused'')"
    by (simp add: unreachable_collection_def)
  let ?r = "exception_record ''app.main'' ''DEV.to API returned an error: '' (HTTPStatusError 503)"
  have x: "log_document ?r = Inl no_formatException"
    by (simp add: log_document_def bind_exn_def exception_record_def formatException_def
        no_formatException_def)
  show ?thesis
    using d h x
      emit_absorbs_database_error [of sample_record document "unreachable_collection ''logs''"
        "''connection refused''" world0 no_formatException]
      emit_absorbs_database_error [of ?r document "unreachable_collection ''logs''"
        "''connection refused''" world0 no_formatException]
    by (simp add: world0_def)
qed

section \<open>Properties of the database client and the bootstrap\<close>

lemma new_client_cached:
  "new_client plat kwargs w = (Inr c, w') \<Longrightarrow> client_global w' = Some c"
  by (auto simp: new_client_def Let_def split: option.splits)

lemma mongo_client_fn_cached:
  assumes "mongo_client_fn plat w = (Inr c, w')"
  shows "client_global w' = Some c"
proof (cases "client_global w")
  case (Some c0)
  with assms show ?thesis by (simp add: mongo_client_fn_def)
next
  case None
  show ?thesis
  proof (cases "truthy (getenv plat ''MONGO_URI'')")
    case True
    with None assms show ?thesis
      by (simp add: mongo_client_fn_def Let_def new_client_cached)
  next
    case False
    with None assms show ?thesis
      by (auto simp: mongo_client_fn_def Let_def split: sum.splits dest: new_client_cached)
  qed
qed

lemma mongo_client_fn_hit:
  "client_global w = Some c \<Longrightarrow> mongo_client_fn plat w = (Inr c, w)"
  by (simp add: mongo_client_fn_def)

lemma new_client_inv:
  "client_global w = None \<Longrightarrow> clients_constructed w = 0 \<Longrightarrow>
     client_cache_inv (snd (new_client plat kwargs w))"
  by (simp add: new_client_def client_cache_inv_def Let_def split: option.splits)

lemma mongo_client_fn_inv:
  assumes "client_cache_inv w"
  shows "client_cache_inv (snd (mongo_client_fn plat w))"
proof (cases "client_global w")
  case (Some c)
  with assms show ?thesis by (simp add: mongo_client_fn_def)
next
  case None
  with assms have z: "clients_constructed w = 0" by (simp add: client_cache_inv_def)
  show ?thesis
  proof (cases "truthy (getenv plat ''MONGO_URI'')")
    case True
    have "client_cache_inv (snd (new_client plat (uri_kwargs (the (getenv plat ''MONGO_URI'')))
            (logger_debug ''Connecting to MongoDB using URI'' w)))"
      by (rule new_client_inv) (simp_all add: logger_debug_def None z)
    with True None show ?thesis by (simp add: mongo_client_fn_def Let_def)
  next
    case False
    show ?thesis
    proof (cases "py_int plat (getenv_default plat ''MONGO_PORT'' ''27017'')")
      case (Inl e)
      with False None assms show ?thesis by (simp add: mongo_client_fn_def Let_def)
    next
      case (Inr port)
      with False None show ?thesis
        by (simp add: mongo_client_fn_def Let_def new_client_inv [OF None z])
    qed
  qed
qed

lemma mongo_client_calls_inv:
  "client_cache_inv w \<Longrightarrow> client_cache_inv (mongo_client_calls plats w)"
  by (induction plats arbitrary: w) (simp_all add: mongo_client_fn_inv)

lemma client_cache_inv_le: "client_cache_inv w \<Longrightarrow> clients_constructed w \<le> 1"
  by (simp add: client_cache_inv_def split: option.splits)

text \<open>
  C9 (as amended). When no client is cached and \<open>MONGO_URI\<close> is set to a non-empty string,
  \<open>_mongo_client\<close> constructs the client from the URI alone, whatever the host, port and
  credential variables hold. Once a call has returned a client, every later call, under
  any environment, returns that same client object and changes nothing. Along any
  sequence of calls from process start at most one client object is constructed.
\<close>

theorem mongo_client_uri_and_cache:
  "(client_global w = None \<and> environ plat ''MONGO_URI'' = Some uri \<and> uri \<noteq> [] \<longrightarrow>
      mongo_client_fn plat w =
        new_client plat
          \<lparr>kw_uri = Some uri, kw_host = None, kw_port = None, kw_tz_aware = True,
           kw_username = None, kw_password = None, kw_authSource = None\<rparr>
          (logger_debug ''Connecting to MongoDB using URI'' w)) \<and>
   (fst (mongo_client_fn plat w) = Inr c \<longrightarrow>
      mongo_client_fn plat' (snd (mongo_client_fn plat w)) =
        (Inr c, snd (mongo_client_fn plat w))) \<and>
   clients_constructed (mongo_client_calls plats world0) \<le> 1"
proof (intro conjI impI)
  assume "client_global w = None \<and> environ plat ''MONGO_URI'' = Some uri \<and> uri \<noteq> []"
  then show "mongo_client_fn plat w =
        new_client plat
          \<lparr>kw_uri = Some uri, kw_host = None, kw_port = None, kw_tz_aware = True,
           kw_username = None, kw_password = None, kw_authSource = None\<rparr>
          (logger_debug ''Connecting to MongoDB using URI'' w)"
    by (simp add: mongo_client_fn_def getenv_def uri_kwargs_def Let_def)
next
  assume "fst (mongo_client_fn plat w) = Inr c"
  then have "mongo_client_fn plat w = (Inr c, snd (mongo_client_fn plat w))"
    by (metis prod.collapse)
  then have "client_global (snd (mongo_client_fn plat w)) = Some c"
    by (rule mongo_client_fn_cached)
  then show "mongo_client_fn plat' (snd (mongo_client_fn plat w)) =
        (Inr c, snd (mongo_client_fn plat w))"
    by (rule mongo_client_fn_hit)
next
  have "client_cache_inv world0" by (simp add: client_cache_inv_def world0_def)
  then have "client_cache_inv (mongo_client_calls plats world0)"
    by (rule mongo_client_calls_inv)
  then show "clients_constructed (mongo_client_calls plats world0) \<le> 1"
    by (rule client_cache_inv_le)
qed

text \<open>
  C9 as amended, at an environment with a URI and discrete settings, followed by a call
  under another environment, and at a sequence of three calls of which the first fails.
\<close>

theorem mongo_client_uri_and_cache_witness:
  "fst (mongo_client_fn (platform_of uri_env accepting_driver) world0) =
     Inr \<lparr>client_ident = 0,
          client_args = \<lparr>kw_uri = Some ''mongodb://db.internal:27017'', kw_host = None,
            kw_port = None, kw_tz_aware = True, kw_username = None, kw_password = None,
            kw_authSource = None\<rparr>\<rparr> \<and>
   fst (mongo_client_fn (platform_of empty_uri_env invalid_uri)
          (snd (mongo_client_fn (platform_of uri_env accepting_driver) world0))) =
     fst (mongo_client_fn (platform_of uri_env accepting_driver) world0) \<and>
   clients_constructed (mongo_client_calls
      [platform_of uri_env invalid_uri, platform_of uri_env accepting_driver,
       platform_of empty_uri_env accepting_driver] world0) \<le> 1"
proof -
  let ?plat = "platform_of uri_env accepting_driver"
  let ?c = "\<lparr>client_ident = 0,
          client_args = \<lparr>kw_uri = Some ''mongodb://db.internal:27017'', kw_host = None,
            kw_port = None, kw_tz_aware = True, kw_username = None, kw_password = None,
            kw_authSource = None\<rparr>\<rparr>"
  note t = mongo_client_uri_and_cache [of world0 ?plat "''mongodb://db.internal:27017''" ?c
      "platform_of empty_uri_env invalid_uri"
      "[platform_of uri_env invalid_uri, platform_of uri_env accepting_driver,
        platform_of empty_uri_env accepting_driver]"]
  have h: "client_global world0 = None \<and>
      environ ?plat ''MONGO_URI'' = Some ''mongodb://db.internal:27017'' \<and>
      ''mongodb://db.internal:27017'' \<noteq> []"
    by (simp add: world0_def platform_of_def accepting_driver_def uri_env_def)
  from t h have a: "mongo_client_fn ?plat world0 =
        new_client ?plat
          \<lparr>kw_uri = Some ''mongodb://db.internal:27017'', kw_host = None, kw_port = None,
           kw_tz_aware = True, kw_username = None, kw_password = None, kw_authSource = None\<rparr>
          (logger_debug ''Connecting to MongoDB using URI'' world0)"
    by blast
  have b: "fst (mongo_client_fn ?plat world0) = Inr ?c"
    unfolding a by (simp add: new_client_def platform_of_def accepting_driver_def logger_debug_def world0_def Let_def)
  from t b have "mongo_client_fn (platform_of empty_uri_env invalid_uri)
        (snd (mongo_client_fn ?plat world0)) = (Inr ?c, snd (mongo_client_fn ?plat world0))"
    by blast
  with b t show ?thesis by simp
qed

text \<open>
  C9 as stated fails when \<open>MONGO_URI\<close> is set to the empty string: \<open>if uri:\<close> is false, and
  the client is constructed from \<open>MONGO_HOST\<close> and the default port.
\<close>

theorem empty_uri_counterexample:
  "environ (platform_of empty_uri_env accepting_driver) ''MONGO_URI'' = Some '''' \<and>
   fst (mongo_client_fn (platform_of empty_uri_env accepting_driver) world0) =
     Inr \<lparr>client_ident = 0,
          client_args = \<lparr>kw_uri = None, kw_host = Some ''db.internal'', kw_port = Some 27017,
            kw_tz_aware = True, kw_username = None, kw_password = None,
            kw_authSource = None\<rparr>\<rparr>"
  by (simp add: mongo_client_fn_def new_client_def platform_of_def accepting_driver_def empty_uri_env_def
      getenv_def getenv_default_def decimal_port_def world0_def Let_def)

lemma new_client_logging:
  "root_handlers (snd (new_client plat kwargs w)) = root_handlers w \<and>
   root_level (snd (new_client plat kwargs w)) = root_level w"
  by (simp add: new_client_def Let_def split: option.splits)

lemma mongo_client_fn_logging:
  "root_handlers (snd (mongo_client_fn plat w)) = root_handlers w \<and>
   root_level (snd (mongo_client_fn plat w)) = root_level w"
  by (simp add: mongo_client_fn_def Let_def new_client_logging logger_debug_def
      split: option.splits sum.splits)

lemma mongo_database_logging:
  "root_handlers (snd (mongo_database plat w)) = root_handlers w \<and>
   root_level (snd (mongo_database plat w)) = root_level w"
proof (cases "mongo_client_fn plat w")
  case (Pair r w1)
  then have "root_handlers w1 = root_handlers w \<and> root_level w1 = root_level w"
    using mongo_client_fn_logging [of plat w] by simp
  with Pair show ?thesis
    by (simp add: mongo_database_def Let_def split: sum.splits option.splits)
qed

lemma acquire_collections_logging:
  "root_handlers (snd (acquire_collections plat a b c w)) = root_handlers w \<and>
   root_level (snd (acquire_collections plat a b c w)) = root_level w"
proof (cases "mongo_database plat w")
  case (Pair r w1)
  then have "root_handlers w1 = root_handlers w \<and> root_level w1 = root_level w"
    using mongo_database_logging [of plat w] by simp
  with Pair show ?thesis
    by (simp add: acquire_collections_def split: sum.splits)
qed

lemma fallback_telemetry_eq:
  "fst (fallback_telemetry exc w) =
     (if error_handlers w = [] then
        Inr (\<lparr>tp_resource = [(''service.name'', PStr ''devto-news-service'')],
              tp_span_processors = []\<rparr>,
             \<lparr>mp_resource = [(''service.name'', PStr ''devto-news-service'')],
              mp_metric_readers = []\<rparr>)
      else Inl no_formatException) \<and>
   root_handlers (snd (fallback_telemetry exc w)) = root_handlers w \<and>
   log_calls (snd (fallback_telemetry exc w)) =
     log_calls w @
       [LogException (''Unable to configure MongoDB telemetry backend: '' @ str_exn exc)]"
proof -
  have l: "log_calls (basicConfig logging_INFO w) = log_calls w"
    and r: "root_handlers (basicConfig logging_INFO w) = root_handlers w"
    by (simp_all add: basicConfig_def Let_def)
  show ?thesis
    by (simp add: fallback_telemetry_def logger_exception_eq error_handlers_basicConfig
        fallback_providers_def set_tracer_provider_def set_meter_provider_def l r Let_def
        split: option.splits)
qed

text \<open>
  C8. When the acquisition of the database handle and its collections raises a database
  error, \<open>configure_telemetry\<close> installs no handler on the root logger and logs the
  failure exactly once; and when it runs in a process in which no \<open>MongoLoggingHandler\<close>
  receives error records yet, as at startup, where it is called once, it returns
  normally with a tracer provider without span processors and a meter provider without
  metric readers.
\<close>

theorem configure_telemetry_fallback:
  assumes "acquire_collections plat
             (getenv_default plat ''MONGO_LOG_COLLECTION'' ''logs'')
             (getenv_default plat ''MONGO_TRACE_COLLECTION'' ''traces'')
             (getenv_default plat ''MONGO_METRIC_COLLECTION'' ''metrics'') w =
           (Inl (PyMongoError m), w1)"
  shows "(error_handlers w = [] \<longrightarrow>
            fst (configure_telemetry plat w) =
              Inr (\<lparr>tp_resource = [(''service.name'', PStr ''devto-news-service'')],
                    tp_span_processors = []\<rparr>,
                   \<lparr>mp_resource = [(''service.name'', PStr ''devto-news-service'')],
                    mp_metric_readers = []\<rparr>)) \<and>
         root_handlers (snd (configure_telemetry plat w)) = root_handlers w \<and>
         log_calls (snd (configure_telemetry plat w)) =
           log_calls w1 @
             [LogException (''Unable to configure MongoDB telemetry backend: '' @ m)]"
proof -
  have rh: "root_handlers w1 = root_handlers w \<and> root_level w1 = root_level w"
    using acquire_collections_logging
      [of plat "getenv_default plat ''MONGO_LOG_COLLECTION'' ''logs''"
        "getenv_default plat ''MONGO_TRACE_COLLECTION'' ''traces''"
        "getenv_default plat ''MONGO_METRIC_COLLECTION'' ''metrics''" w]
    by (simp add: assms)
  then have eh: "error_handlers w1 = error_handlers w"
    by (simp add: error_handlers_def)
  have c: "configure_telemetry plat w = fallback_telemetry (PyMongoError m) w1"
    using assms by (simp add: configure_telemetry_def Let_def)
  show ?thesis
    unfolding c using fallback_telemetry_eq [of "PyMongoError m" w1] eh rh by simp
qed

text \<open>
  C8, at process start with an environment whose \<open>MONGO_URI\<close> the driver rejects.
\<close>

theorem configure_telemetry_fallback_witness:
  "acquire_collections (platform_of uri_env invalid_uri) ''logs'' ''traces'' ''metrics'' world0 =
     (Inl (PyMongoError ''Invalid URI scheme''),
      logger_debug ''Connecting to MongoDB using URI'' world0) \<and>
   error_handlers world0 = [] \<and>
   fst (configure_telemetry (platform_of uri_env invalid_uri) world0) =
     Inr (\<lparr>tp_resource = [(''service.name'', PStr ''devto-news-service'')],
           tp_span_processors = []\<rparr>,
          \<lparr>mp_resource = [(''service.name'', PStr ''devto-news-service'')],
           mp_metric_readers = []\<rparr>) \<and>
   root_handlers (snd (configure_telemetry (platform_of uri_env invalid_uri) world0)) = [] \<and>
   log_calls (snd (configure_telemetry (platform_of uri_env invalid_uri) world0)) =
     [LogDebug ''Connecting to MongoDB using URI'',
      LogException ''Unable to configure MongoDB telemetry backend: Invalid URI scheme'']"
proof -
  let ?plat = "platform_of uri_env invalid_uri"
  have e: "getenv_default ?plat ''MONGO_LOG_COLLECTION'' ''logs'' = ''logs''"
    "getenv_default ?plat ''MONGO_TRACE_COLLECTION'' ''traces'' = ''traces''"
    "getenv_default ?plat ''MONGO_METRIC_COLLECTION'' ''metrics'' = ''metrics''"
    by (simp_all add: getenv_default_def platform_of_def uri_env_def)
  have h: "acquire_collections ?plat
             (getenv_default ?plat ''MONGO_LOG_COLLECTION'' ''logs'')
             (getenv_default ?plat ''MONGO_TRACE_COLLECTION'' ''traces'')
             (getenv_default ?plat ''MONGO_METRIC_COLLECTION'' ''metrics'') world0 =
           (Inl (PyMongoError ''Invalid URI scheme''),
            logger_debug ''Connecting to MongoDB using URI'' world0)"
    unfolding e
    by (simp add: acquire_collections_def mongo_database_def mongo_client_fn_def
        new_client_def getenv_def platform_of_def uri_env_def invalid_uri_def world0_def
        logger_debug_def Let_def)
  have n: "error_handlers world0 = []"
    by (simp add: error_handlers_def world0_def)
  show ?thesis
    using h n configure_telemetry_fallback [OF h]
    by (simp add: e logger_debug_def world0_def)
qed

section \<open>Properties of the news endpoint\<close>

lemma project_articles_length:
  "project_articles acc items = Inr articles \<Longrightarrow> length articles = length acc + length items"
proof (induction items arbitrary: acc)
  case Nil
  then show ?case by simp
next
  case (Cons item items)
  then show ?case by (auto split: sum.splits)
qed

lemma fetch_articles_items:
  assumes "fetch_articles up tag per_page w = (Inr articles, w')"
  shows "map_option length (upstream_items up tag per_page) = Some (length articles)"
proof -
  from assms obtain response body items where
    "client_get up DEVTO_API_URL (query_params tag per_page) = Inr response"
    "response_json response = Inr body" "py_iter body = Inr items"
    "project_articles [] items = Inr articles"
    by (auto simp: fetch_articles_def query_params_def Let_def split: sum.splits if_splits)
  then show ?thesis
    using project_articles_length [of "[]" items articles]
    by (simp add: upstream_items_def)
qed

lemma upstream_failure_raises: "fst (upstream_failure exc w) \<noteq> Inr body"
  by (cases exc) (simp_all add: upstream_failure_def and_then_def logger_exception_eq)

lemma upstream_failure_events: "app_events (snd (upstream_failure exc w)) = app_events w"
  by (cases exc) (simp_all add: upstream_failure_def and_then_def logger_exception_eq)

lemma get_news_body:
  assumes "get_news up tag per_page w = (Inr body, w')"
  shows "\<exists>articles w2. fetch_articles up tag per_page
             (record_events [RequestCounterAdd 1 [(''tag'', PStr tag)]] w) = (Inr articles, w2) \<and>
           body = PDict [(''source'', PStr ''DEV.to''), (''tag'', PStr tag),
                         (''count'', PInt (int (length articles))),
                         (''articles'', PList articles)]"
proof (cases "fetch_articles up tag per_page
    (record_events [RequestCounterAdd 1 [(''tag'', PStr tag)]] w)")
  case (Pair r w2)
  show ?thesis
  proof (cases r)
    case (Inl exc)
    with Pair assms have "fst (upstream_failure exc w2) = Inr body"
      by (simp add: get_news_def Let_def)
    with upstream_failure_raises show ?thesis by blast
  next
    case (Inr articles)
    with Pair assms show ?thesis by (auto simp: get_news_def Let_def)
  qed
qed

text \<open>
  C4 (as amended). For every \<open>per_page\<close> in \<open>[1, 30]\<close> and every tag, a successful \<open>/news\<close>
  response has an \<open>articles\<close> list, its \<open>count\<close> is the length of that list, and that length
  is the number of items of the upstream response: the endpoint neither drops nor
  truncates, so \<open>len(articles) \<le> per_page\<close> holds exactly when the upstream API returned
  at most \<open>per_page\<close> items.
\<close>

theorem news_count_matches_articles:
  assumes "1 \<le> per_page" and "per_page \<le> 30"
    and "news_route up (Some tag) (Some per_page) w = (Inr body, w')"
  shows "body_articles body \<noteq> None \<and>
         doc_get body ''count'' =
           map_option (\<lambda>articles. PInt (int (length articles))) (body_articles body) \<and>
         map_option length (body_articles body) =
           map_option length (upstream_items up tag per_page)"
proof -
  from assms have "get_news up tag per_page w = (Inr body, w')"
    by (simp add: news_route_def per_page_query_def)
  then obtain articles w2 where
    f: "fetch_articles up tag per_page
          (record_events [RequestCounterAdd 1 [(''tag'', PStr tag)]] w) = (Inr articles, w2)"
    and b: "body = PDict [(''source'', PStr ''DEV.to''), (''tag'', PStr tag),
                         (''count'', PInt (int (length articles))),
                         (''articles'', PList articles)]"
    using get_news_body by blast
  from f have "map_option length (upstream_items up tag per_page) = Some (length articles)"
    by (rule fetch_articles_items)
  then show ?thesis by (auto simp: b body_articles_def)
qed

lemmas news_eval =
  news_route_def per_page_query_def tag_default_def get_news_def fetch_articles_def
  record_events_def project_article_def bind_exn_def DEVTO_API_URL_def Let_def

text \<open>
  C4 as amended, at \<open>per_page = 5\<close> and an upstream response of two articles.
\<close>

theorem news_count_matches_articles_witness:
  "(1::int) \<le> 5 \<and> (5::int) \<le> 30 \<and>
   fst (news_route (answering_upstream 200 two_articles) (Some ''python'') (Some 5) world0) =
     Inr (PDict [(''source'', PStr ''DEV.to''), (''tag'', PStr ''python''), (''count'', PInt 2),
       (''articles'', PList
          [PDict [(''id'', PInt 1), (''title'', PStr ''first''), (''url'', PNone),
                  (''description'', PNone), (''published_at'', PNone), (''tags'', PNone),
                  (''user'', PDict [(''name'', PNone), (''username'', PNone)])],
           PDict [(''id'', PInt 2), (''title'', PStr ''second''), (''url'', PNone),
                  (''description'', PNone), (''published_at'', PNone), (''tags'', PNone),
                  (''user'', PDict [(''name'', PNone), (''username'', PNone)])]])]) \<and>
   map_option length (upstream_items (answering_upstream 200 two_articles) ''python'' 5) = Some 2"
proof -
  let ?up = "answering_upstream 200 two_articles"
  let ?r = "news_route ?up (Some ''python'') (Some 5) world0"
  have r: "fst ?r =
     Inr (PDict [(''source'', PStr ''DEV.to''), (''tag'', PStr ''python''), (''count'', PInt 2),
       (''articles'', PList
          [PDict [(''id'', PInt 1), (''title'', PStr ''first''), (''url'', PNone),
                  (''description'', PNone), (''published_at'', PNone), (''tags'', PNone),
                  (''user'', PDict [(''name'', PNone), (''username'', PNone)])],
           PDict [(''id'', PInt 2), (''title'', PStr ''second''), (''url'', PNone),
                  (''description'', PNone), (''published_at'', PNone), (''tags'', PNone),
                  (''user'', PDict [(''name'', PNone), (''username'', PNone)])]])])"
    (is "_ = Inr ?body")
    by (simp add: news_eval answering_upstream_def two_articles_def client_error_status_def)
  then have h: "?r = (Inr ?body, snd ?r)" by (metis prod.collapse)
  have lo: "(1::int) \<le> 5" and hi: "(5::int) \<le> 30" by simp_all
  have "map_option length (upstream_items ?up ''python'' 5) =
      map_option length (body_articles ?body)"
    using news_count_matches_articles [OF lo hi h] by simp
  then have "map_option length (upstream_items ?up ''python'' 5) = Some 2"
    by (simp add: body_articles_def numeral_2_eq_2)
  with r show ?thesis by (simp add: numeral_2_eq_2)
qed

text \<open>
  C4 as stated fails when the upstream API returns more items than asked for: with
  \<open>per_page = 1\<close> and two upstream articles the response is successful with \<open>count = 2\<close>
  and two articles.
\<close>

theorem more_articles_than_per_page_counterexample:
  "response_status (fst (news_route (answering_upstream 200 two_articles)
      (Some ''python'') (Some 1) world0)) = 200 \<and>
   response_count (fst (news_route (answering_upstream 200 two_articles)
      (Some ''python'') (Some 1) world0)) = Some (PInt 2) \<and>
   response_articles_length (fst (news_route (answering_upstream 200 two_articles)
      (Some ''python'') (Some 1) world0)) = Some 2 \<and>
   \<not> (2::int) \<le> 1"
  by (simp add: news_eval answering_upstream_def two_articles_def client_error_status_def
      body_articles_def response_count_def response_articles_length_def)

text \<open>
  C5. A \<open>per_page\<close> below 1 or above 30 is rejected with the validation error (status 422)
  and nothing else happens: no counter is touched and no outbound request is made. A
  \<open>per_page\<close> within the bounds reaches the handler, and a request without parameters
  runs the handler with tag \<open>technology\<close> and \<open>per_page = 5\<close>.
\<close>

theorem news_route_validation:
  "(per_page < 1 \<or> 30 < per_page \<longrightarrow>
      news_route up tag_param (Some per_page) w = (Inl RequestValidationError, w) \<and>
      response_status (fst (news_route up tag_param (Some per_page) w)) = 422 \<and>
      filter is_HttpGet (app_events (snd (news_route up tag_param (Some per_page) w))) =
        filter is_HttpGet (app_events w)) \<and>
   (1 \<le> per_page \<and> per_page \<le> 30 \<longrightarrow>
      news_route up (Some tag) (Some per_page) w = get_news up tag per_page w) \<and>
   news_route up None None w = get_news up ''technology'' 5 w"
  by (auto simp: news_route_def per_page_query_def tag_default_def)

text \<open>
  C5, at \<open>per_page = 0\<close>, \<open>31\<close> and \<open>30\<close>.
\<close>

theorem news_route_validation_witness:
  "news_route (answering_upstream 200 two_articles) None (Some 0) world0 =
     (Inl RequestValidationError, world0) \<and>
   news_route (answering_upstream 200 two_articles) None (Some 31) world0 =
     (Inl RequestValidationError, world0) \<and>
   news_route (answering_upstream 200 two_articles) (Some ''python'') (Some 30) world0 =
     get_news (answering_upstream 200 two_articles) ''python'' 30 world0 \<and>
   filter is_HttpGet (app_events (snd (news_route (answering_upstream 200 two_articles)
      (Some ''python'') (Some 30) world0))) \<noteq> []"
proof -
  have c: "filter is_HttpGet (app_events
      (snd (get_news (answering_upstream 200 two_articles) ''python'' 30 world0))) \<noteq> []"
    by (simp add: news_eval answering_upstream_def two_articles_def client_error_status_def
        world0_def)
  show ?thesis
    using news_route_validation [of 0 "answering_upstream 200 two_articles" None world0 "''python''"]
      news_route_validation [of 31 "answering_upstream 200 two_articles" None world0 "''python''"]
      news_route_validation [of 30 "answering_upstream 200 two_articles" None world0 "''python''"]
      c
    by simp
qed

lemma fetch_articles_error_handlers:
  "error_handlers (snd (fetch_articles up tag per_page w)) = error_handlers w"
  by (simp add: fetch_articles_def error_handlers_record_events Let_def split: sum.splits)

text \<open>
  What the handler raises on an upstream failure. Without a \<open>MongoLoggingHandler\<close> that
  receives the record of \<open>logger.exception\<close>, an \<open>HTTPStatusError\<close> for status \<open>s\<close>
  becomes an \<open>HTTPException\<close> with status \<open>s\<close> and a \<open>RequestError\<close> one with status
  502; with such a handler, the \<open>AttributeError\<close> of its \<open>emit\<close> is raised before the
  \<open>raise HTTPException\<close> statement is reached.
\<close>

lemma get_news_upstream_outcomes:
  "(client_get up DEVTO_API_URL (query_params tag per_page) = Inr response \<and>
    raises_for_status up (status_code response) \<longrightarrow>
      fst (get_news up tag per_page w) =
        (if error_handlers w = []
         then Inl (HTTPException (status_code response) ''Upstream error from DEV.to API'')
         else Inl no_formatException)) \<and>
   (client_get up DEVTO_API_URL (query_params tag per_page) = Inl (RequestError m) \<longrightarrow>
      fst (get_news up tag per_page w) =
        (if error_handlers w = []
         then Inl (HTTPException 502 ''Unable to reach DEV.to API'')
         else Inl no_formatException))"
  by (simp add: get_news_def fetch_articles_def query_params_def upstream_failure_def
      and_then_def logger_exception_eq error_handlers_record_events Let_def)

text \<open>
  C6, the code at the failing input. In the process as \<open>configure_telemetry\<close> wires it,
  an upstream response with status 503 and a refused connection both end in an
  \<open>AttributeError\<close>, which the framework answers with status 500; in a process without
  the logging handler the statuses are 503 and 502, as the claim says.
\<close>

theorem get_news_upstream_error_escapes:
  "fst (get_news (answering_upstream 503 PNone) ''python'' 5 wired_world) =
     Inl (AttributeError ''MongoLoggingHandler object has no attribute formatException'') \<and>
   response_status (fst (get_news (answering_upstream 503 PNone) ''python'' 5 wired_world)) = 500 \<and>
   fst (get_news unreachable_upstream ''python'' 5 wired_world) =
     Inl (AttributeError ''MongoLoggingHandler object has no attribute formatException'') \<and>
   response_status (fst (get_news unreachable_upstream ''python'' 5 wired_world)) = 500 \<and>
   fst (get_news (answering_upstream 503 PNone) ''python'' 5 world0) =
     Inl (HTTPException 503 ''Upstream error from DEV.to API'') \<and>
   fst (get_news unreachable_upstream ''python'' 5 world0) =
     Inl (HTTPException 502 ''Unable to reach DEV.to API'')"
proof -
  have a: "error_handlers world0 = []"
    by (simp add: error_handlers_def world0_def)
  show ?thesis
    using get_news_upstream_outcomes [of "answering_upstream 503 PNone" "''python''" 5
        "\<lparr>status_code = 503, response_json = Inr PNone\<rparr>" wired_world "[]"]
      get_news_upstream_outcomes [of unreachable_upstream "''python''" 5
        "\<lparr>status_code = 503, response_json = Inr PNone\<rparr>" wired_world "''connection refused''"]
      get_news_upstream_outcomes [of "answering_upstream 503 PNone" "''python''" 5
        "\<lparr>status_code = 503, response_json = Inr PNone\<rparr>" world0 "[]"]
      get_news_upstream_outcomes [of unreachable_upstream "''python''" 5
        "\<lparr>status_code = 503, response_json = Inr PNone\<rparr>" world0 "''connection refused''"]
      a wired_world_error_handlers
    by (simp add: answering_upstream_def unreachable_upstream_def client_error_status_def
        no_formatException_def)
qed

lemma fetch_articles_trace:
  "\<exists>more. app_events (snd (fetch_articles up tag per_page w1)) = app_events w1 @ more \<and>
     filter is_HttpGet more = [HttpGet DEVTO_API_URL (query_params tag per_page)] \<and>
     filter is_ArticleCounterAdd more = [] \<and> filter is_RequestCounterAdd more = []"
  by (auto simp: fetch_articles_def record_events_def query_params_def Let_def
      split: sum.splits)

text \<open>
  C10. Whatever the upstream does, the first thing the handler does is add 1 to the request
  counter with the tag as attribute; the single outbound request comes after it. The
  article counter is not touched when the handler raises, and is added to exactly once,
  by the number of articles in the response, when the handler returns.
\<close>

theorem get_news_counters:
  "take (Suc (length (app_events w))) (app_events (snd (get_news up tag per_page w))) =
     app_events w @ [RequestCounterAdd 1 [(''tag'', PStr tag)]] \<and>
   filter is_HttpGet
     (events_after (app_events w) (app_events (snd (get_news up tag per_page w)))) =
     [HttpGet DEVTO_API_URL (query_params tag per_page)] \<and>
   filter is_RequestCounterAdd
     (events_after (app_events w) (app_events (snd (get_news up tag per_page w)))) = [] \<and>
   (case fst (get_news up tag per_page w) of
      Inl e \<Rightarrow>
        filter is_ArticleCounterAdd
          (events_after (app_events w) (app_events (snd (get_news up tag per_page w)))) = []
    | Inr body \<Rightarrow>
        (case body_articles body of
           None \<Rightarrow> False
         | Some articles \<Rightarrow>
             filter is_ArticleCounterAdd
               (events_after (app_events w) (app_events (snd (get_news up tag per_page w)))) =
               [ArticleCounterAdd (int (length articles)) [(''tag'', PStr tag)]]))"
proof -
  let ?w1 = "record_events [RequestCounterAdd 1 [(''tag'', PStr tag)]] w"
  have e1: "app_events ?w1 = app_events w @ [RequestCounterAdd 1 [(''tag'', PStr tag)]]"
    by (simp add: record_events_def)
  obtain r w2 where f: "fetch_articles up tag per_page ?w1 = (r, w2)"
    by (cases "fetch_articles up tag per_page ?w1") auto
  obtain more where m: "app_events w2 = app_events ?w1 @ more"
    "filter is_HttpGet more = [HttpGet DEVTO_API_URL (query_params tag per_page)]"
    "filter is_ArticleCounterAdd more = []" "filter is_RequestCounterAdd more = []"
    using fetch_articles_trace [of up tag per_page ?w1] f by auto
  show ?thesis
  proof (cases r)
    case (Inr articles)
    with f m e1 show ?thesis
      by (simp add: get_news_def Let_def events_after_def body_articles_def record_events_def)
  next
    case (Inl exc)
    obtain r3 w3 where u: "upstream_failure exc w2 = (r3, w3)"
      by (cases "upstream_failure exc w2") auto
    have ev: "app_events w3 = app_events w2"
      using upstream_failure_events [of exc w2] u by simp
    have "\<exists>e. r3 = Inl e"
      using upstream_failure_raises [of exc w2] u by (cases r3) auto
    then obtain e where r3: "r3 = Inl e" by blast
    from Inl f u have g: "get_news up tag per_page w = (Inl e, w3)"
      by (simp add: get_news_def Let_def r3)
    show ?thesis
      unfolding g using ev m e1 by (simp add: events_after_def)
  qed
qed

text \<open>
  C10, at an upstream that refuses the connection and at an upstream returning two articles.
\<close>

theorem get_news_counters_witness:
  "take 1 (app_events (snd (get_news unreachable_upstream ''python'' 5 world0))) =
     [RequestCounterAdd 1 [(''tag'', PStr ''python'')]] \<and>
   filter is_HttpGet
     (events_after [] (app_events (snd (get_news unreachable_upstream ''python'' 5 world0)))) =
     [HttpGet DEVTO_API_URL (query_params ''python'' 5)] \<and>
   filter is_ArticleCounterAdd
     (events_after [] (app_events (snd (get_news unreachable_upstream ''python'' 5 world0)))) = [] \<and>
   take 1 (app_events (snd (get_news (answering_upstream 200 two_articles) ''python'' 5 world0))) =
     [RequestCounterAdd 1 [(''tag'', PStr ''python'')]] \<and>
   filter is_ArticleCounterAdd
     (events_after [] (app_events
        (snd (get_news (answering_upstream 200 two_articles) ''python'' 5 world0)))) =
     [ArticleCounterAdd 2 [(''tag'', PStr ''python'')]]"
proof -
  have z: "app_events world0 = []" by (simp add: world0_def)
  have a: "isl (fst (get_news unreachable_upstream ''python'' 5 world0))"
    by (simp add: get_news_def fetch_articles_def unreachable_upstream_def upstream_failure_def
        and_then_def logger_exception_eq Let_def)
  have b: "body_articles (projr (fst (get_news (answering_upstream 200 two_articles) ''python'' 5 world0))) =
      Some [PDict [(''id'', PInt 1), (''title'', PStr ''first''), (''url'', PNone),
                  (''description'', PNone), (''published_at'', PNone), (''tags'', PNone),
                  (''user'', PDict [(''name'', PNone), (''username'', PNone)])],
           PDict [(''id'', PInt 2), (''title'', PStr ''second''), (''url'', PNone),
                  (''description'', PNone), (''published_at'', PNone), (''tags'', PNone),
                  (''user'', PDict [(''name'', PNone), (''username'', PNone)])]] \<and>
     isl (fst (get_news (answering_upstream 200 two_articles) ''python'' 5 world0)) = False"
    by (simp add: news_eval answering_upstream_def two_articles_def client_error_status_def
        body_articles_def)
  show ?thesis
    using get_news_counters [of world0 unreachable_upstream "''python''" 5]
      get_news_counters [of world0 "answering_upstream 200 two_articles" "''python''" 5] a b z
    by (auto simp: isl_def split: sum.splits)
qed

end
